theory Spec2Isabelle
  imports Complex_Main "HOL-Library.Multiset"
begin

section \<open>Strings and numbers as the handlers use them\<close>

text \<open>
  Request fields, range tokens and formatted dates are ASCII text and are kept as
  \<^typ>\<open>string\<close>.  A field that may be absent (\<open>undefined\<close> or \<open>null\<close>) is an
  \<^typ>\<open>'a option\<close>; \<open>truthy\<close> is JavaScript's test \<open>if (s)\<close> on such a field.
\<close>

definition truthy :: "string option \<Rightarrow> bool" where
  "truthy s = (case s of None \<Rightarrow> False | Some v \<Rightarrow> v \<noteq> [])"

definition isDigit :: "char \<Rightarrow> bool" where
  "isDigit c = (48 \<le> (of_char c :: nat) \<and> (of_char c :: nat) \<le> 57)"

definition digitVal :: "char \<Rightarrow> int" where
  "digitVal c = int (of_char c) - 48"

text \<open>\<open>parseInt\<close> and \<open>Number\<close> on a run of decimal digits.\<close>

definition parseDigits :: "string \<Rightarrow> int" where
  "parseDigits s = foldl (\<lambda>acc c. 10 * acc + digitVal c) 0 s"

definition digitChar :: "nat \<Rightarrow> char" where
  "digitChar n = char_of (48 + n)"

fun natToString :: "nat \<Rightarrow> string" where
  "natToString n =
     (if n < 10 then [digitChar n] else natToString (n div 10) @ [digitChar (n mod 10)])"

declare natToString.simps [simp del]

text \<open>\<open>String(i)\<close> and \<open>i.toString()\<close> on an integer.\<close>

definition intToString :: "int \<Rightarrow> string" where
  "intToString i = (if i < 0 then CHR ''-'' # natToString (nat (- i)) else natToString (nat i))"

text \<open>\<open>s.padStart(n, "0")\<close>.\<close>

definition padStart0 :: "nat \<Rightarrow> string \<Rightarrow> string" where
  "padStart0 n s = replicate (n - length s) CHR ''0'' @ s"

section \<open>Calendar arithmetic of the \<open>Date\<close> object\<close>

text \<open>
  The day and year functions of the ECMAScript \<open>Date\<close> specification, over day numbers
  (days since 1970-01-01) and time values (milliseconds since the epoch).  The bound of a
  \<open>Date\<close> at about 275 000 years to either side of the epoch is not part of the model.
\<close>

definition msPerDay :: int where
  "msPerDay = 86400000"

definition msPerHour :: int where
  "msPerHour = 3600000"

definition Day :: "int \<Rightarrow> int" where
  "Day t = t div msPerDay"

definition TimeWithinDay :: "int \<Rightarrow> int" where
  "TimeWithinDay t = t mod msPerDay"

definition InLeapYear :: "int \<Rightarrow> bool" where
  "InLeapYear y =
     (if y mod 4 \<noteq> 0 then False else if y mod 100 \<noteq> 0 then True else y mod 400 = 0)"

definition DayFromYear :: "int \<Rightarrow> int" where
  "DayFromYear y =
     365 * (y - 1970) + (y - 1969) div 4 - (y - 1901) div 100 + (y - 1601) div 400"

text \<open>
  \<open>YearFromTime\<close> is the largest year whose first day is not after the given day.  It is
  found by counting up from a year that is certainly not too late.
\<close>

definition yearEstimate :: "int \<Rightarrow> int" where
  "yearEstimate d = 1970 + (if 0 \<le> d then d div 366 else d div 365)"

function yearSearch :: "int \<Rightarrow> int \<Rightarrow> int" where
  "yearSearch d y = (if DayFromYear (y + 1) \<le> d then yearSearch d (y + 1) else y)"
  by pat_completeness auto
termination
proof (relation "measure (\<lambda>(d, y). nat (d + 1 - DayFromYear (y + 1)))")
  show "wf (measure (\<lambda>(d, y). nat (d + 1 - DayFromYear (y + 1))))"
    by simp
next
  fix d y :: int
  assume le: "DayFromYear (y + 1) \<le> d"
  have a: "(y + 1 - 1969) div 4 \<le> (y + 1 + 1 - 1969) div 4"
    by (rule zdiv_mono1) simp_all
  have "(y + 1 + 1 - 1901) div 100 \<le> (y + 1 - 1901 + 100) div 100"
    by (rule zdiv_mono1) simp_all
  then have b: "(y + 1 + 1 - 1901) div 100 \<le> (y + 1 - 1901) div 100 + 1"
    by simp
  have c: "(y + 1 - 1601) div 400 \<le> (y + 1 + 1 - 1601) div 400"
    by (rule zdiv_mono1) simp_all
  have lin: "p \<le> p' \<Longrightarrow> q' \<le> q + 1 \<Longrightarrow> r \<le> r' \<Longrightarrow>
      365 * (y + 1 - 1970) + p - q + r < 365 * (y + 1 + 1 - 1970) + p' - q' + r'"
    for p q r p' q' r' :: int
    by (simp add: algebra_simps)
  have "DayFromYear (y + 1) < DayFromYear (y + 1 + 1)"
    unfolding DayFromYear_def by (rule lin [OF a b c])
  with le show "((d, y + 1), (d, y)) \<in> measure (\<lambda>(d, y). nat (d + 1 - DayFromYear (y + 1)))"
    by simp
qed

declare yearSearch.simps [simp del]

definition YearFromDay :: "int \<Rightarrow> int" where
  "YearFromDay d = yearSearch d (yearEstimate d)"

definition DayWithinYear :: "int \<Rightarrow> int" where
  "DayWithinYear d = d - DayFromYear (YearFromDay d)"

text \<open>First day of month \<open>m\<close> (0 = January) within its year.\<close>

definition monthStart :: "int \<Rightarrow> bool \<Rightarrow> int" where
  "monthStart m leap =
     (let l = (if leap then 1 else 0) in
      if m = 0 then 0 else if m = 1 then 31 else if m = 2 then 59 + l
      else if m = 3 then 90 + l else if m = 4 then 120 + l else if m = 5 then 151 + l
      else if m = 6 then 181 + l else if m = 7 then 212 + l else if m = 8 then 243 + l
      else if m = 9 then 273 + l else if m = 10 then 304 + l else 334 + l)"

definition monthOfYearDay :: "int \<Rightarrow> bool \<Rightarrow> int" where
  "monthOfYearDay n leap =
     (let l = (if leap then 1 else 0) in
      if n < 31 then 0 else if n < 59 + l then 1 else if n < 90 + l then 2
      else if n < 120 + l then 3 else if n < 151 + l then 4 else if n < 181 + l then 5
      else if n < 212 + l then 6 else if n < 243 + l then 7 else if n < 273 + l then 8
      else if n < 304 + l then 9 else if n < 334 + l then 10 else 11)"

definition MonthFromDay :: "int \<Rightarrow> int" where
  "MonthFromDay d = monthOfYearDay (DayWithinYear d) (InLeapYear (YearFromDay d))"

definition DateFromDay :: "int \<Rightarrow> int" where
  "DateFromDay d =
     DayWithinYear d - monthStart (MonthFromDay d) (InLeapYear (YearFromDay d)) + 1"

definition WeekDay :: "int \<Rightarrow> int" where
  "WeekDay d = (d + 4) mod 7"

text \<open>
  \<open>MakeDay(year, month, date)\<close>: months outside 0..11 carry into the year, and the day
  of the month is added as an offset, so that day 0 or day 32 roll into the neighbouring
  month.
\<close>

definition MakeDay :: "int \<Rightarrow> int \<Rightarrow> int \<Rightarrow> int" where
  "MakeDay year month date =
     (let ym = year + month div 12; mn = month mod 12
      in DayFromYear ym + monthStart mn (InLeapYear ym) + date - 1)"

definition daysInMonth :: "int \<Rightarrow> int \<Rightarrow> int" where
  "daysInMonth y m =
     (if m = 1 then (if InLeapYear y then 29 else 28)
      else if m = 3 \<or> m = 5 \<or> m = 8 \<or> m = 10 then 30 else 31)"

text \<open>A calendar date with month 1..12, as an ISO date string writes it.\<close>

definition validCivil :: "int \<Rightarrow> int \<Rightarrow> int \<Rightarrow> bool" where
  "validCivil y m d = (1 \<le> m \<and> m \<le> 12 \<and> 1 \<le> d \<and> d \<le> daysInMonth y (m - 1))"

section \<open>The date range resolver (\<open>calculateDateRange\<close>)\<close>

text \<open>
  \<open>calculateDateRange\<close> builds every \<open>Date\<close> from local calendar fields at local
  midnight and reads it back with the local getters only (\<open>getDay\<close>, \<open>getDate\<close>,
  \<open>setDate\<close>, \<open>getFullYear\<close>, \<open>getMonth\<close>).  Such a \<open>Date\<close> is kept as its local
  day number; this presumes that the host's zone has no transition at local midnight, as
  is the case for America/Los_Angeles and for UTC.
\<close>

text \<open>\<open>new Date(year, monthIndex, day)\<close>: a year from 0 to 99 means 1900 + year.\<close>

definition newDate :: "int \<Rightarrow> int \<Rightarrow> int \<Rightarrow> int" where
  "newDate y m d = MakeDay (if 0 \<le> y \<and> y \<le> 99 then 1900 + y else y) m d"

definition getDay :: "int \<Rightarrow> int" where
  "getDay t = WeekDay t"

definition getDate :: "int \<Rightarrow> int" where
  "getDate t = DateFromDay t"

definition setDate :: "int \<Rightarrow> int \<Rightarrow> int" where
  "setDate t dt = MakeDay (YearFromDay t) (MonthFromDay t) dt"

definition formatDate :: "int \<Rightarrow> string" where
  "formatDate d =
     intToString (YearFromDay d) @ ''-'' @ padStart0 2 (intToString (MonthFromDay d + 1))
       @ ''-'' @ padStart0 2 (intToString (DateFromDay d))"

text \<open>
  What the resolver reads from its surroundings: the calendar fields of now in
  America/Los_Angeles (the parts of the \<open>Intl.DateTimeFormat\<close> output, month 1..12), and
  the host's \<open>getTimezoneOffset()\<close> on 1 January, on 1 July and now.
\<close>

record clock =
  laYear :: int
  laMonth :: int
  laDay :: int
  janOffset :: int
  julOffset :: int
  nowOffset :: int

definition tzOffset :: "clock \<Rightarrow> string" where
  "tzOffset c =
     (let stdOffset = max (janOffset c) (julOffset c); isDST = (nowOffset c < stdOffset)
      in if isDST then ''-07:00'' else ''-08:00'')"

text \<open>The pattern \<open>/^(\\d{4})-(\\d{2})-(\\d{2})$/\<close> and its three groups.\<close>

definition isoDateMatch :: "string \<Rightarrow> bool" where
  "isoDateMatch s =
     (length s = 10 \<and> list_all isDigit (take 4 s) \<and> s ! 4 = CHR ''-''
      \<and> list_all isDigit (take 2 (drop 5 s)) \<and> s ! 7 = CHR ''-''
      \<and> list_all isDigit (drop 8 s))"

definition yearStr :: "string \<Rightarrow> string" where
  "yearStr s = take 4 s"

definition monthStr :: "string \<Rightarrow> string" where
  "monthStr s = take 2 (drop 5 s)"

definition dayStr :: "string \<Rightarrow> string" where
  "dayStr s = drop 8 s"

text \<open>The pattern \<open>/^week_of:(\\d{4})-(\\d{2})-(\\d{2})$/\<close>.\<close>

definition weekOfMatch :: "string \<Rightarrow> bool" where
  "weekOfMatch s = (take 8 s = ''week_of:'' \<and> isoDateMatch (drop 8 s))"

text \<open>\<open>toLowerCase\<close> on ASCII text.\<close>

definition lowerChar :: "char \<Rightarrow> char" where
  "lowerChar c =
     (let n = (of_char c :: nat) in if 65 \<le> n \<and> n \<le> 90 then char_of (n + 32) else c)"

definition toLowerCase :: "string \<Rightarrow> string" where
  "toLowerCase s = map lowerChar s"

record dateRange =
  timeMin :: string
  timeMax :: string

text \<open>The \<open>switch\<close> on the lower-cased token: the pair \<open>(startDate, endDate)\<close>.\<close>

definition rangeDates :: "int \<Rightarrow> string \<Rightarrow> int \<times> int" where
  "rangeDates todayLA key =
     (if key = ''today'' then (todayLA, todayLA)
      else if key = ''yesterday'' then
        (let startDate = setDate todayLA (getDate todayLA - 1) in (startDate, startDate))
      else if key = ''tomorrow'' then
        (let startDate = setDate todayLA (getDate todayLA + 1) in (startDate, startDate))
      else if key = ''last_week'' \<or> key = ''last week'' \<or> key = ''past week'' then
        (setDate todayLA (getDate todayLA - 7), todayLA)
      else if key = ''this_week'' \<or> key = ''this week'' then
        (let dayOfWeek = getDay todayLA;
             daysToMonday = (if dayOfWeek = 0 then 6 else dayOfWeek - 1);
             startDate = setDate todayLA (getDate todayLA - daysToMonday)
         in (startDate, setDate startDate (getDate startDate + 6)))
      else if key = ''next_week'' \<or> key = ''next week'' then
        (let dow = getDay todayLA;
             daysUntilMonday = (if dow = 0 then 1 else 8 - dow);
             startDate = setDate todayLA (getDate todayLA + daysUntilMonday)
         in (startDate, setDate startDate (getDate startDate + 6)))
      else if key = ''last_month'' \<or> key = ''last month'' \<or> key = ''past month'' then
        (setDate todayLA (getDate todayLA - 30), todayLA)
      else (todayLA, setDate todayLA (getDate todayLA + 7)))"

definition calculateDateRange :: "clock \<Rightarrow> string \<Rightarrow> dateRange" where
  "calculateDateRange c rangeType =
     (let todayLA = newDate (laYear c) (laMonth c - 1) (laDay c);
          tz = tzOffset c
      in if weekOfMatch rangeType then
           (let iso = drop 8 rangeType;
                targetDate = newDate (parseDigits (yearStr iso)) (parseDigits (monthStr iso) - 1)
                               (parseDigits (dayStr iso));
                dayOfWeek = getDay targetDate;
                sunday = setDate targetDate (getDate targetDate - dayOfWeek);
                saturday = setDate sunday (getDate sunday + 6)
            in \<lparr>timeMin = formatDate sunday @ ''T00:00:00'' @ tz,
                timeMax = formatDate saturday @ ''T23:59:59'' @ tz\<rparr>)
         else if isoDateMatch rangeType then
           \<lparr>timeMin = rangeType @ ''T00:00:00'' @ tz,
            timeMax = rangeType @ ''T23:59:59'' @ tz\<rparr>
         else
           (let (startDate, endDate) = rangeDates todayLA (toLowerCase rangeType)
            in \<lparr>timeMin = formatDate startDate @ ''T00:00:00'' @ tz,
                timeMax = formatDate endDate @ ''T23:59:59'' @ tz\<rparr>))"

text \<open>The case labels of the \<open>switch\<close>.\<close>

definition rangeKeys :: "string list" where
  "rangeKeys =
     [''today'', ''yesterday'', ''tomorrow'', ''last_week'', ''last week'', ''past week'',
      ''this_week'', ''this week'', ''next_week'', ''next week'', ''last_month'',
      ''last month'', ''past month'', ''upcoming'', ''schedule'']"

section \<open>Creating an event (\<open>POST\<close> of \<open>api/calendars/events\<close>)\<close>

text \<open>
  The handler parses the date-only string with \<open>new Date(date)\<close>, which is UTC midnight,
  moves it with the local \<open>getDate\<close> and \<open>setDate\<close>, and prints it with \<open>toISOString\<close>,
  which is UTC again.  Here a \<open>Date\<close> is its time value in milliseconds, and the host's
  zone is explicit: \<open>offsetAtUTC\<close> is the offset in force at a UTC time value,
  \<open>offsetAtLocal\<close> the offset by which a local time value is read.
\<close>

record hostZone =
  offsetAtUTC :: "int \<Rightarrow> int"
  offsetAtLocal :: "int \<Rightarrow> int"

definition LocalTime :: "hostZone \<Rightarrow> int \<Rightarrow> int" where
  "LocalTime z t = t + offsetAtUTC z t"

definition UTC :: "hostZone \<Rightarrow> int \<Rightarrow> int" where
  "UTC z t = t - offsetAtLocal z t"

definition fixedZone :: "int \<Rightarrow> hostZone" where
  "fixedZone c = \<lparr>offsetAtUTC = (\<lambda>t. c), offsetAtLocal = (\<lambda>t. c)\<rparr>"

text \<open>
  America/Los_Angeles under the rules in force since 2007: daylight time from 02:00 on the
  second Sunday of March to 02:00 on the first Sunday of November.  A local time in the
  skipped hour is read with the offset before the transition.
\<close>

definition sundayOnOrAfter :: "int \<Rightarrow> int" where
  "sundayOnOrAfter d = d + (7 - WeekDay d) mod 7"

definition dstStartDay :: "int \<Rightarrow> int" where
  "dstStartDay y = sundayOnOrAfter (MakeDay y 2 8)"

definition dstEndDay :: "int \<Rightarrow> int" where
  "dstEndDay y = sundayOnOrAfter (MakeDay y 10 1)"

definition losAngeles :: hostZone where
  "losAngeles =
     \<lparr>offsetAtUTC = (\<lambda>t. let y = YearFromDay (Day t) in
         if dstStartDay y * msPerDay + 10 * msPerHour \<le> t
            \<and> t < dstEndDay y * msPerDay + 9 * msPerHour
         then - 7 * msPerHour else - 8 * msPerHour),
      offsetAtLocal = (\<lambda>t. let y = YearFromDay (Day t) in
         if dstStartDay y * msPerDay + 3 * msPerHour \<le> t
            \<and> t < dstEndDay y * msPerDay + 2 * msPerHour
         then - 7 * msPerHour else - 8 * msPerHour)\<rparr>"

text \<open>
  \<open>new Date(s)\<close> on a string of the shape \<open>YYYY-MM-DD\<close>: the time value of UTC midnight
  of that day, or \<open>NaN\<close> (here \<open>None\<close>) when the month is not in 1..12 or the day not in
  1..31.  A day from 29 to 31 that the month does not have rolls into the next month, as
  the engine of Node has it.
\<close>

definition parseISODate :: "string \<Rightarrow> int option" where
  "parseISODate s =
     (let y = parseDigits (yearStr s); m = parseDigits (monthStr s); d = parseDigits (dayStr s)
      in if 1 \<le> m \<and> m \<le> 12 \<and> 1 \<le> d \<and> d \<le> 31
         then Some (MakeDay y (m - 1) d * msPerDay) else None)"

definition getDateTV :: "hostZone \<Rightarrow> int \<Rightarrow> int" where
  "getDateTV z t = DateFromDay (Day (LocalTime z t))"

definition setDateTV :: "hostZone \<Rightarrow> int \<Rightarrow> int \<Rightarrow> int" where
  "setDateTV z t dt =
     (let lt = LocalTime z t;
          newDay = MakeDay (YearFromDay (Day lt)) (MonthFromDay (Day lt)) dt
      in UTC z (newDay * msPerDay + TimeWithinDay lt))"

text \<open>\<open>d.toISOString().split("T")[0]\<close>: the UTC date, the year with four digits when it
  lies in 0..9999 and with a sign and six digits otherwise.\<close>

definition isoYear :: "int \<Rightarrow> string" where
  "isoYear y =
     (if 0 \<le> y \<and> y \<le> 9999 then padStart0 4 (intToString y)
      else (if y < 0 then ''-'' else ''+'') @ padStart0 6 (intToString (abs y)))"

definition isoDatePart :: "int \<Rightarrow> string" where
  "isoDatePart t =
     isoYear (YearFromDay (Day t)) @ ''-'' @ padStart0 2 (intToString (MonthFromDay (Day t) + 1))
       @ ''-'' @ padStart0 2 (intToString (DateFromDay (Day t)))"

text \<open>JavaScript's \<open>%\<close> on integers: the remainder has the sign of the dividend.\<close>

definition jsRem :: "int \<Rightarrow> int \<Rightarrow> int" where
  "jsRem a b = (if 0 \<le> a then a mod b else - ((- a) mod b))"

record EventRequest =
  req_calendarId :: "string option"
  req_title :: "string option"
  req_description :: "string option"
  req_location :: "string option"
  req_date :: "string option"
  req_time :: "string option"
  req_duration :: "int option"
  req_allDay :: "bool option"
  req_recurrence :: "string option"

record eventTime =
  dateTime :: "string option"
  date :: "string option"
  timeZone :: "string option"

record GoogleEvent =
  ev_summary :: string
  ev_description :: "string option"
  ev_location :: "string option"
  ev_start :: eventTime
  ev_end :: eventTime
  ev_recurrence :: "string list option"

text \<open>A response with an error status, or an exception that leaves the handler.\<close>

datatype failure = Rejected nat string | Thrown string

definition falsy :: "string option \<Rightarrow> bool" where
  "falsy s = (\<not> truthy s)"

text \<open>\<open>s || undefined\<close>.\<close>

definition orUndefined :: "string option \<Rightarrow> string option" where
  "orUndefined s = (if truthy s then s else None)"

definition strOf :: "string option \<Rightarrow> string" where
  "strOf s = (case s of None \<Rightarrow> [] | Some v \<Rightarrow> v)"

text \<open>The pattern \<open>/^\\d{2}:\\d{2}$/\<close>.\<close>

definition timeMatch :: "string \<Rightarrow> bool" where
  "timeMatch s =
     (length s = 5 \<and> list_all isDigit (take 2 s) \<and> s ! 2 = CHR '':''
      \<and> list_all isDigit (drop 3 s))"

definition recurrenceRules :: "(string \<times> string) list" where
  "recurrenceRules =
     [(''daily'', ''RRULE:FREQ=DAILY''), (''weekly'', ''RRULE:FREQ=WEEKLY''),
      (''monthly'', ''RRULE:FREQ=MONTHLY''), (''yearly'', ''RRULE:FREQ=YEARLY'')]"

definition addRecurrence :: "string option \<Rightarrow> GoogleEvent \<Rightarrow> GoogleEvent" where
  "addRecurrence r ev =
     (if truthy r \<and> strOf r \<noteq> ''none'' then
        (case map_of recurrenceRules (strOf r) of
           Some rule \<Rightarrow> ev\<lparr>ev_recurrence := Some [rule]\<rparr>
         | None \<Rightarrow> ev)
      else ev)"

text \<open>
  The body of the handler from the validation of the request to the event object it
  sends upstream.  On a time that matched \<open>HH:MM\<close>, \<open>time.split(":").map(Number)\<close> is the
  pair of the two digit runs.  \<open>duration\<close> is taken as an integer number of minutes, and
  \<open>recurrence\<close> as one of the own keys of the rule table or a string that is no property
  of it.
\<close>

definition buildEvent :: "hostZone \<Rightarrow> EventRequest \<Rightarrow> failure + GoogleEvent" where
  "buildEvent z r =
     (if falsy (req_calendarId r) \<or> falsy (req_title r) \<or> falsy (req_date r) then
        Inl (Rejected 400 ''Missing required fields: calendarId, title, date'')
      else if \<not> isoDateMatch (strOf (req_date r)) then
        Inl (Rejected 400 ''Invalid date format. Use YYYY-MM-DD'')
      else if req_allDay r \<noteq> Some True \<and> falsy (req_time r) then
        Inl (Rejected 400 ''Time is required for non-all-day events'')
      else if truthy (req_time r) \<and> \<not> timeMatch (strOf (req_time r)) then
        Inl (Rejected 400 ''Invalid time format. Use HH:MM'')
      else if req_allDay r = Some True then
        (case parseISODate (strOf (req_date r)) of
           None \<Rightarrow> Inl (Thrown ''RangeError: Invalid time value'')
         | Some t0 \<Rightarrow>
             (let endDate = setDateTV z t0 (getDateTV z t0 + 1);
                  endDateStr = isoDatePart endDate
              in Inr (addRecurrence (req_recurrence r)
                   \<lparr>ev_summary = strOf (req_title r),
                    ev_description = orUndefined (req_description r),
                    ev_location = orUndefined (req_location r),
                    ev_start = \<lparr>dateTime = None, date = req_date r, timeZone = None\<rparr>,
                    ev_end = \<lparr>dateTime = None, date = Some endDateStr, timeZone = None\<rparr>,
                    ev_recurrence = None\<rparr>)))
      else
        (let tm = strOf (req_time r);
             startDateTime = strOf (req_date r) @ ''T'' @ tm @ '':00'';
             eventDuration = (case req_duration r of None \<Rightarrow> 60
                              | Some d \<Rightarrow> if d = 0 then 60 else d);
             hours = parseDigits (take 2 tm);
             minutes = parseDigits (drop 3 tm);
             totalMinutes = hours * 60 + minutes + eventDuration;
             endHours = jsRem (totalMinutes div 60) 24;
             endMinutes = jsRem totalMinutes 60;
             endTime = padStart0 2 (intToString endHours) @ '':''
                         @ padStart0 2 (intToString endMinutes);
             endDateTime = strOf (req_date r) @ ''T'' @ endTime @ '':00''
         in Inr (addRecurrence (req_recurrence r)
              \<lparr>ev_summary = strOf (req_title r),
               ev_description = orUndefined (req_description r),
               ev_location = orUndefined (req_location r),
               ev_start = \<lparr>dateTime = Some startDateTime, date = None,
                            timeZone = Some ''America/Los_Angeles''\<rparr>,
               ev_end = \<lparr>dateTime = Some endDateTime, date = None,
                          timeZone = Some ''America/Los_Angeles''\<rparr>,
               ev_recurrence = None\<rparr>)))"

text \<open>Two requests: an all-day event and a one-hour event at 23:30.\<close>

definition allDayRequest :: "string \<Rightarrow> EventRequest" where
  "allDayRequest d =
     \<lparr>req_calendarId = Some ''primary'', req_title = Some ''Offsite'',
      req_description = None, req_location = None, req_date = Some d, req_time = None,
      req_duration = None, req_allDay = Some True, req_recurrence = None\<rparr>"

definition lateRequest :: EventRequest where
  "lateRequest =
     \<lparr>req_calendarId = Some ''primary'', req_title = Some ''Call'',
      req_description = None, req_location = None, req_date = Some ''2026-03-15'',
      req_time = Some ''23:30'', req_duration = Some 60, req_allDay = Some False,
      req_recurrence = Some ''none''\<rparr>"

section \<open>The bounds of a range as instants\<close>




section \<open>Speech synthesis (\<open>POST\<close> of the text-to-speech route)\<close>

text \<open>
  The text to speak may hold any character, so it is a list of UTF-16 code units, as a
  JavaScript string is.  The \<open>text\<close> field of the request body is absent, a value that is
  not a string, or a string.
\<close>

type_synonym ustring = "nat list"

datatype textField = Undefined | NonString | Str ustring

text \<open>
  The code units of the character class of the first \<open>replace\<close>, as the source file holds
  them.  The pattern has no \<open>u\<close> flag, so the class is a set of single code units.
\<close>

definition emojiClass :: "nat list" where
  "emojiClass =
     [0x11F, 0x178, 0x201C, 0x2026, 0x11F, 0x178, 0x201C, 0x152, 0x11F, 0x178, 0x2022,
      0x11F, 0x178, 0x201C, 0xE2, 0x153, 0x2026, 0xE2, 0x152, 0x11F, 0x178, 0x2014,
      0x2018, 0xEF, 0xB8]"

definition stripEmoji :: "ustring \<Rightarrow> ustring" where
  "stripEmoji s = filter (\<lambda>c. c \<notin> set emojiClass) s"

text \<open>
  \<open>/\\[([^\\]]+)\\]\\([^)]+\\)/\<close> at the head of a string: the label and what follows the
  match.  A negated class followed by its own delimiter can only match the whole run up to
  the first delimiter.
\<close>

definition matchLink :: "ustring \<Rightarrow> (ustring \<times> ustring) option" where
  "matchLink s =
     (case s of
        [] \<Rightarrow> None
      | c # r \<Rightarrow>
          if c \<noteq> 0x5B then None
          else
            (let label = takeWhile (\<lambda>x. x \<noteq> 0x5D) r;
                 r1 = dropWhile (\<lambda>x. x \<noteq> 0x5D) r
             in if label = [] \<or> take 2 r1 \<noteq> [0x5D, 0x28] then None
                else
                  (let url = takeWhile (\<lambda>x. x \<noteq> 0x29) (drop 2 r1);
                       r2 = dropWhile (\<lambda>x. x \<noteq> 0x29) (drop 2 r1)
                   in if url = [] \<or> r2 = [] then None else Some (label, tl r2))))"

text \<open>\<open>/\\*\\*([^*]+)\\*\\*/\<close> at the head of a string.\<close>

definition matchBold :: "ustring \<Rightarrow> (ustring \<times> ustring) option" where
  "matchBold s =
     (if take 2 s \<noteq> [0x2A, 0x2A] then None
      else
        (let inner = takeWhile (\<lambda>x. x \<noteq> 0x2A) (drop 2 s);
             r = dropWhile (\<lambda>x. x \<noteq> 0x2A) (drop 2 s)
         in if inner = [] \<or> take 2 r \<noteq> [0x2A, 0x2A] then None
            else Some (inner, drop 2 r)))"

text \<open>
  \<open>s.replace(/pattern/g, "$1")\<close> for the two patterns: scan from the left, replace a
  match by its group and go on behind it, else keep the code unit and go on with the next.
\<close>

lemma matchLink_shorter: "matchLink s = Some (g, rest) \<Longrightarrow> length rest < length s"
proof -
  assume a: "matchLink s = Some (g, rest)"
  then obtain c r where s: "s = c # r" by (cases s) (simp_all add: matchLink_def)
  let ?r1 = "dropWhile (\<lambda>x. x \<noteq> 0x5D) r"
  let ?r2 = "dropWhile (\<lambda>x. x \<noteq> 0x29) (drop 2 ?r1)"
  from a s have "rest = tl ?r2"
    by (simp add: matchLink_def Let_def split: if_splits)
  then have "length rest \<le> length ?r2" by simp
  also have "\<dots> \<le> length (drop 2 ?r1)" by (rule length_dropWhile_le)
  also have "\<dots> \<le> length ?r1" by simp
  also have "\<dots> \<le> length r" by (rule length_dropWhile_le)
  finally show ?thesis using s by simp
qed

lemma matchBold_shorter: "matchBold s = Some (g, rest) \<Longrightarrow> length rest < length s"
proof -
  assume a: "matchBold s = Some (g, rest)"
  let ?r = "dropWhile (\<lambda>x. x \<noteq> 0x2A) (drop 2 s)"
  from a have t: "take 2 s = [0x2A, 0x2A]" and "rest = drop 2 ?r"
    by (simp_all add: matchBold_def Let_def split: if_splits)
  then have "length rest \<le> length ?r" by simp
  also have "\<dots> \<le> length (drop 2 s)" by (rule length_dropWhile_le)
  also have "\<dots> < length s" using t by (cases s) auto
  finally show ?thesis .
qed

function replaceLinks :: "ustring \<Rightarrow> ustring" where
  "replaceLinks [] = []"
| "replaceLinks (c # cs) =
     (case matchLink (c # cs) of
        Some (label, rest) \<Rightarrow> label @ replaceLinks rest
      | None \<Rightarrow> c # replaceLinks cs)"
  by pat_completeness auto
termination
  by (relation "measure length") (auto dest: matchLink_shorter)

function replaceBold :: "ustring \<Rightarrow> ustring" where
  "replaceBold [] = []"
| "replaceBold (c # cs) =
     (case matchBold (c # cs) of
        Some (inner, rest) \<Rightarrow> inner @ replaceBold rest
      | None \<Rightarrow> c # replaceBold cs)"
  by pat_completeness auto
termination
  by (relation "measure length") (auto dest: matchBold_shorter)

text \<open>\<open>s.replace(/\\n+/g, ". ")\<close>.\<close>

function replaceNewlines :: "ustring \<Rightarrow> ustring" where
  "replaceNewlines [] = []"
| "replaceNewlines (c # cs) =
     (if c = 0x0A then [0x2E, 0x20] @ replaceNewlines (dropWhile (\<lambda>x. x = 0x0A) cs)
      else c # replaceNewlines cs)"
  by pat_completeness auto
termination
  by (relation "measure length") (auto simp: less_Suc_eq_le length_dropWhile_le)

text \<open>White space and line terminators, which \<open>trim\<close> removes at both ends.\<close>

definition isWhiteSpace :: "nat \<Rightarrow> bool" where
  "isWhiteSpace c =
     (c \<in> set [0x09, 0x0A, 0x0B, 0x0C, 0x0D, 0x20, 0xA0, 0x1680, 0x2028, 0x2029, 0x202F,
                0x205F, 0x3000, 0xFEFF]
      \<or> (0x2000 \<le> c \<and> c \<le> 0x200A))"

definition trim :: "ustring \<Rightarrow> ustring" where
  "trim s = rev (dropWhile isWhiteSpace (rev (dropWhile isWhiteSpace s)))"

definition cleanText :: "ustring \<Rightarrow> ustring" where
  "cleanText t =
     trim (replaceNewlines (replaceBold (replaceLinks (stripEmoji t))))"

record speechBody =
  tts_text :: textField
  tts_voice :: "string option"
  tts_speed :: "rat option"

record speechCall =
  sc_model :: string
  sc_voice :: string
  sc_input :: ustring
  sc_speed :: rat

datatype ttsResponse = JsonError nat string | Audio "nat list"

text \<open>
  The handler, with the synthesis engine as a parameter (\<open>None\<close> when the call throws).
  The body is \<open>None\<close> when reading it throws.  The result is the response and the list of
  calls made to the engine.  \<open>speed\<close> is taken as a number.
\<close>

definition POST_tts ::
  "(speechCall \<Rightarrow> nat list option) \<Rightarrow> speechBody option \<Rightarrow> ttsResponse \<times> speechCall list" where
  "POST_tts engine body =
     (case body of
        None \<Rightarrow> (JsonError 500 ''Failed to generate speech'', [])
      | Some b \<Rightarrow>
          (case tts_text b of
             Undefined \<Rightarrow> (JsonError 400 ''Text is required'', [])
           | NonString \<Rightarrow> (JsonError 400 ''Text is required'', [])
           | Str t \<Rightarrow>
               if t = [] then (JsonError 400 ''Text is required'', [])
               else if cleanText t = [] then (JsonError 400 ''No speakable text'', [])
               else
                 (let call = \<lparr>sc_model = ''tts-1'',
                               sc_voice = (case tts_voice b of None \<Rightarrow> ''nova'' | Some v \<Rightarrow> v),
                               sc_input = cleanText t,
                               sc_speed = max (1 / 4)
                                 (min 4 (case tts_speed b of None \<Rightarrow> 1 | Some v \<Rightarrow> v))\<rparr>
                  in case engine call of
                       None \<Rightarrow> (JsonError 500 ''Failed to generate speech'', [call])
                     | Some mp3 \<Rightarrow> (Audio mp3, [call]))))"

text \<open>An engine that answers every call, and three request bodies.\<close>

definition echoEngine :: "speechCall \<Rightarrow> nat list option" where
  "echoEngine c = Some (sc_input c)"

definition bodyWithText :: "textField \<Rightarrow> speechBody" where
  "bodyWithText t = \<lparr>tts_text = t, tts_voice = None, tts_speed = None\<rparr>"

section \<open>The chat handler (\<open>POST\<close> of the chat route): values and events\<close>

text \<open>
  What \<open>JSON.parse\<close> returns for the completion's content.  Numbers are taken as
  integers.  A property that is absent reads as \<open>undefined\<close>, here \<open>None\<close>.
\<close>

datatype json =
  JNull | JBool bool | JNum int | JStr string | JArr "json list" | JObj "(string \<times> json) list"

text \<open>\<open>v.k\<close>: only an object off \<open>JSON.parse\<close> has the properties the handler reads.\<close>

definition field :: "json \<Rightarrow> string \<Rightarrow> json option" where
  "field v k = (case v of JObj fs \<Rightarrow> map_of fs k | _ \<Rightarrow> None)"

definition truthyJ :: "json option \<Rightarrow> bool" where
  "truthyJ v =
     (case v of
        None \<Rightarrow> False
      | Some JNull \<Rightarrow> False
      | Some (JBool b) \<Rightarrow> b
      | Some (JNum n) \<Rightarrow> n \<noteq> 0
      | Some (JStr s) \<Rightarrow> s \<noteq> []
      | Some (JArr _) \<Rightarrow> True
      | Some (JObj _) \<Rightarrow> True)"

text \<open>\<open>a || b\<close>.\<close>

definition orJ :: "json option \<Rightarrow> json option \<Rightarrow> json option" where
  "orJ a b = (if truthyJ a then a else b)"

definition orElse :: "string option \<Rightarrow> string option \<Rightarrow> string option" where
  "orElse a b = (if truthy a then a else b)"

record CalendarInfo =
  cal_id :: string
  cal_name :: string
  cal_color :: string

text \<open>An item of the upstream events list, and the event the handler makes of it.\<close>

record rawEvent =
  raw_id :: string
  raw_summary :: "string option"
  raw_start :: eventTime
  raw_end :: eventTime
  raw_location :: "string option"

record CalendarEvent =
  ce_id :: string
  ce_title :: string
  ce_start :: "string option"
  ce_end :: "string option"
  ce_location :: "string option"
  ce_calendarId :: "string option"
  ce_calendarName :: "string option"
  ce_calendarColor :: "string option"

text \<open>
  The outcome of one per-calendar fetch: something inside its \<open>try\<close> throws (the request,
  the reading of the body, the mapping of a malformed body), the response is not ok, or
  the body arrives with its \<open>items\<close> (possibly absent).
\<close>

datatype fetchResult = FetchThrows | NotOk | Items "rawEvent list option"

definition primaryCalendar :: CalendarInfo where
  "primaryCalendar = \<lparr>cal_id = ''primary'', cal_name = ''Primary'', cal_color = ''#4285f4''\<rparr>"

definition calendarsToSearch :: "CalendarInfo list \<Rightarrow> CalendarInfo list" where
  "calendarsToSearch activeCalendars =
     (if activeCalendars \<noteq> [] then activeCalendars else [primaryCalendar])"

definition titleOf :: "rawEvent \<Rightarrow> string" where
  "titleOf ev = (if truthy (raw_summary ev) then strOf (raw_summary ev) else ''(No title)'')"

text \<open>The mapping of the read branch tags an event with id, name and colour of its
  calendar; the mapping of the delete branch leaves the colour out.\<close>

definition readEvent :: "CalendarInfo \<Rightarrow> rawEvent \<Rightarrow> CalendarEvent" where
  "readEvent cal ev =
     \<lparr>ce_id = raw_id ev, ce_title = titleOf ev,
      ce_start = orElse (dateTime (raw_start ev)) (date (raw_start ev)),
      ce_end = orElse (dateTime (raw_end ev)) (date (raw_end ev)),
      ce_location = raw_location ev,
      ce_calendarId = Some (cal_id cal), ce_calendarName = Some (cal_name cal),
      ce_calendarColor = Some (cal_color cal)\<rparr>"

definition searchEvent :: "CalendarInfo \<Rightarrow> rawEvent \<Rightarrow> CalendarEvent" where
  "searchEvent cal ev = (readEvent cal ev)\<lparr>ce_calendarColor := None\<rparr>"

definition fetchEvents ::
  "(CalendarInfo \<Rightarrow> rawEvent \<Rightarrow> CalendarEvent) \<Rightarrow> CalendarInfo \<Rightarrow> fetchResult \<Rightarrow> CalendarEvent list" where
  "fetchEvents mapping cal res =
     (case res of
        FetchThrows \<Rightarrow> []
      | NotOk \<Rightarrow> []
      | Items its \<Rightarrow> map (mapping cal) (case its of None \<Rightarrow> [] | Some l \<Rightarrow> l))"

text \<open>
  \<open>xs.sort(compare)\<close> with a consistent comparator is the stable sort: every element is
  put behind the elements it must follow (\<open>compare(a, b) > 0\<close>) and before the others.
\<close>

fun insertBy :: "('a \<Rightarrow> 'a \<Rightarrow> bool) \<Rightarrow> 'a \<Rightarrow> 'a list \<Rightarrow> 'a list" where
  "insertBy after x [] = [x]"
| "insertBy after x (y # ys) = (if after x y then y # insertBy after x ys else x # y # ys)"

definition sortBy :: "('a \<Rightarrow> 'a \<Rightarrow> bool) \<Rightarrow> 'a list \<Rightarrow> 'a list" where
  "sortBy after xs = foldr (insertBy after) xs []"

definition hasStart :: "CalendarEvent \<Rightarrow> bool" where
  "hasStart e = (ce_start e \<noteq> None)"

definition startOf :: "CalendarEvent \<Rightarrow> string" where
  "startOf e = strOf (ce_start e)"

text \<open>
  The surroundings of one chat request: the session's provider token, the calendars the
  client sent, the clock, the host's zone and the time value of now, the upstream list
  call (calendar id, \<open>timeMin\<close>, \<open>timeMax\<close>), and the library functions the handler calls:
  \<open>localeCompare\<close>, \<open>new Date(s).getHours()\<close> and \<open>getMinutes()\<close> (\<open>None\<close> for \<open>NaN\<close>),
  \<open>toLocaleTimeString\<close>, and the formatters of the event list, which rest on \<open>Intl\<close>.
\<close>

record env =
  providerToken :: "string option"
  activeCalendars :: "CalendarInfo list"
  env_clock :: clock
  env_zone :: hostZone
  env_now :: int
  upstream :: "string \<Rightarrow> string \<Rightarrow> string \<Rightarrow> fetchResult"
  localeCompare :: "string \<Rightarrow> string \<Rightarrow> int"
  getHours :: "string \<Rightarrow> int option"
  getMinutes :: "string \<Rightarrow> int option"
  toLocaleTimeString :: "string \<Rightarrow> string"
  formatEventsMessage :: "CalendarEvent list \<Rightarrow> string \<Rightarrow> bool \<Rightarrow> string"
  formatEventsSpeech :: "CalendarEvent list \<Rightarrow> string \<Rightarrow> string"
  rangeDescription :: "string \<Rightarrow> string"

text \<open>The body of a reply of the handler; \<open>appointment\<close> and \<open>readRange\<close> are \<open>null\<close> in
  every reply it builds itself.\<close>

record reply =
  rp_message :: "json option"
  rp_speech :: "string option"
  rp_action :: string
  rp_appointment :: json
  rp_readRange :: json
  rp_events :: "CalendarEvent list option"
  rp_deleteEvent :: "CalendarEvent option"
  rp_multipleEvents :: "CalendarEvent list option"

definition textReply :: "string \<Rightarrow> string \<Rightarrow> reply" where
  "textReply m sp =
     \<lparr>rp_message = Some (JStr m), rp_speech = Some sp, rp_action = ''none'',
      rp_appointment = JNull, rp_readRange = JNull, rp_events = None,
      rp_deleteEvent = None, rp_multipleEvents = None\<rparr>"

text \<open>
  The handler answers with a reply it built, with the parsed completion passed through
  (the properties of the body), or with an error status.
\<close>

datatype chatResult = Reply reply | Passed "(string \<times> json) list" | Failed nat string

definition cannotAccess :: reply where
  "cannotAccess =
     textReply ''I can't access your calendar. Please sign out and sign in again to grant calendar permissions.''
       ''I can't access your calendar. Please sign out and sign in again.''"

definition troubleFetching :: reply where
  "troubleFetching =
     textReply ''I had trouble fetching your calendar. Please try again.''
       ''I had trouble fetching your calendar. Please try again.''"

text \<open>
  The read branch.  An event without a start makes a formatter throw (and the comparator
  before it), which the branch answers with \<open>troubleFetching\<close>.  A range that is not a
  string makes \<open>calculateDateRange\<close> throw, outside the inner \<open>try\<close>.
\<close>

definition readAll :: "env \<Rightarrow> string \<Rightarrow> CalendarEvent list" where
  "readAll e readRange =
     (let dateRange = calculateDateRange (env_clock e) readRange
      in concat (map (\<lambda>cal. fetchEvents readEvent cal
                    (upstream e (cal_id cal) (timeMin dateRange) (timeMax dateRange)))
           (calendarsToSearch (activeCalendars e))))"

definition readBranch :: "env \<Rightarrow> json \<Rightarrow> chatResult" where
  "readBranch e readRange =
     (if falsy (providerToken e) then Reply cannotAccess
      else
        (case readRange of
           JStr r \<Rightarrow>
             (let allEvents = readAll e r
              in if \<not> list_all hasStart allEvents then Reply troubleFetching
                 else
                   (let events = sortBy (\<lambda>a b. 0 < localeCompare e (startOf a) (startOf b)) allEvents;
                        showCalendarNames = (1 < length (calendarsToSearch (activeCalendars e)))
                    in Reply
                         \<lparr>rp_message = Some (JStr (formatEventsMessage e events (rangeDescription e r)
                                                  showCalendarNames)),
                          rp_speech = Some (formatEventsSpeech e events (rangeDescription e r)),
                          rp_action = ''none'', rp_appointment = JNull, rp_readRange = JNull,
                          rp_events = Some events, rp_deleteEvent = None,
                          rp_multipleEvents = None\<rparr>))
         | _ \<Rightarrow> Failed 500 ''Failed to process request''))"

section \<open>The chat handler: the delete branch and the dispatch\<close>

text \<open>\<open>String(v)\<close>, as a template literal applies it.\<close>

fun joinComma :: "string list \<Rightarrow> string" where
  "joinComma [] = []"
| "joinComma [x] = x"
| "joinComma (x # y # ys) = x @ '','' @ joinComma (y # ys)"

fun toStringJ :: "json \<Rightarrow> string" where
  "toStringJ JNull = ''null''"
| "toStringJ (JBool b) = (if b then ''true'' else ''false'')"
| "toStringJ (JNum n) = intToString n"
| "toStringJ (JStr s) = s"
| "toStringJ (JArr xs) = joinComma (map (\<lambda>x. if x = JNull then [] else toStringJ x) xs)"
| "toStringJ (JObj fs) = ''[object Object]''"

text \<open>\<open>s.split(":")\<close>.\<close>

fun splitColon :: "string \<Rightarrow> string list" where
  "splitColon [] = [[]]"
| "splitColon (x # xs) =
     (if x = CHR '':'' then [] # splitColon xs
      else (case splitColon xs of [] \<Rightarrow> [[x]] | p # ps \<Rightarrow> (x # p) # ps))"

text \<open>
  \<open>Number(s)\<close> on a run of decimal digits (the empty string is 0).  Any other string
  reads as \<open>NaN\<close>, here \<open>None\<close>: signs, fractions, exponents and the like are outside
  this model.  An element that a destructuring does not find is \<open>undefined\<close> and
  behaves as \<open>NaN\<close> in the arithmetic and the comparisons below.
\<close>

definition Number :: "string \<Rightarrow> int option" where
  "Number s = (if list_all isDigit s then Some (parseDigits s) else None)"

definition element :: "int option list \<Rightarrow> nat \<Rightarrow> int option" where
  "element xs i = (if i < length xs then xs ! i else None)"

definition numEq :: "int option \<Rightarrow> int option \<Rightarrow> bool" where
  "numEq a b =
     (case a of None \<Rightarrow> False
      | Some x \<Rightarrow> (case b of None \<Rightarrow> False | Some y \<Rightarrow> x = y))"

definition numLe :: "int option \<Rightarrow> int option \<Rightarrow> bool" where
  "numLe a b =
     (case a of None \<Rightarrow> False
      | Some x \<Rightarrow> (case b of None \<Rightarrow> False | Some y \<Rightarrow> x \<le> y))"

definition absDiff :: "int option \<Rightarrow> int option \<Rightarrow> int option" where
  "absDiff a b =
     (case a of None \<Rightarrow> None
      | Some x \<Rightarrow> (case b of None \<Rightarrow> None | Some y \<Rightarrow> Some (abs (x - y))))"

definition minutesOf :: "int option \<Rightarrow> int option \<Rightarrow> int option" where
  "minutesOf h m =
     (case h of None \<Rightarrow> None
      | Some x \<Rightarrow> (case m of None \<Rightarrow> None | Some y \<Rightarrow> Some (x * 60 + y)))"

text \<open>\<open>hay.includes(needle)\<close>.\<close>

fun startsWith :: "string \<Rightarrow> string \<Rightarrow> bool" where
  "startsWith s [] = True"
| "startsWith [] (n # ns) = False"
| "startsWith (c # cs) (n # ns) = (c = n \<and> startsWith cs ns)"

fun includesStr :: "string \<Rightarrow> string \<Rightarrow> bool" where
  "includesStr [] needle = (needle = [])"
| "includesStr (c # cs) needle = (startsWith (c # cs) needle \<or> includesStr cs needle)"

text \<open>\<open>e.start.includes("T")\<close> on an event that has a start.\<close>

definition timed :: "CalendarEvent \<Rightarrow> bool" where
  "timed ev = (CHR ''T'' \<in> set (startOf ev))"

text \<open>
  The three filters.  Each is \<open>None\<close> when it throws: the search value is truthy but
  no string (\<open>toLowerCase\<close> or \<open>split\<close> is no function of it), or the callback meets an
  event without a start.
\<close>

definition titleMatches :: "string \<Rightarrow> CalendarEvent \<Rightarrow> bool" where
  "titleMatches searchTerm ev =
     includesStr (toLowerCase (ce_title ev)) (toLowerCase searchTerm)"

definition titleFilter :: "json option \<Rightarrow> CalendarEvent list \<Rightarrow> CalendarEvent list option" where
  "titleFilter searchTerm events =
     (if truthyJ searchTerm then
        (case searchTerm of
           Some (JStr t) \<Rightarrow> Some (filter (titleMatches t) events)
         | _ \<Rightarrow> None)
      else Some events)"

definition timeMatches :: "env \<Rightarrow> string \<Rightarrow> CalendarEvent \<Rightarrow> bool" where
  "timeMatches e filterTime ev =
     (let parts = map Number (splitColon filterTime);
          filterHour = element parts 0;
          filterMin = element parts 1
      in if \<not> timed ev then False
         else
           (let eventHour = getHours e (startOf ev);
                eventMin = getMinutes e (startOf ev)
            in numEq eventHour filterHour \<and> numLe (absDiff eventMin filterMin) (Some 30)))"

definition timeFilter ::
  "env \<Rightarrow> json option \<Rightarrow> CalendarEvent list \<Rightarrow> CalendarEvent list option" where
  "timeFilter e filterTime events =
     (if truthyJ filterTime then
        (case filterTime of
           Some (JStr t) \<Rightarrow>
             if list_all hasStart events then Some (filter (timeMatches e t) events) else None
         | _ \<Rightarrow> None)
      else Some events)"

definition rangeMatches :: "env \<Rightarrow> string \<Rightarrow> string \<Rightarrow> CalendarEvent \<Rightarrow> bool" where
  "rangeMatches e filterTimeRangeStart filterTimeRangeEnd ev =
     (let startParts = map Number (splitColon filterTimeRangeStart);
          endParts = map Number (splitColon filterTimeRangeEnd);
          rangeStartMinutes = minutesOf (element startParts 0) (element startParts 1);
          rangeEndMinutes = minutesOf (element endParts 0) (element endParts 1)
      in if \<not> timed ev then False
         else
           (let eventMinutes = minutesOf (getHours e (startOf ev)) (getMinutes e (startOf ev))
            in numLe rangeStartMinutes eventMinutes \<and> numLe eventMinutes rangeEndMinutes))"

definition rangeFilter ::
  "env \<Rightarrow> json option \<Rightarrow> json option \<Rightarrow> CalendarEvent list \<Rightarrow> CalendarEvent list option" where
  "rangeFilter e filterTimeRangeStart filterTimeRangeEnd events =
     (if truthyJ filterTimeRangeStart \<and> truthyJ filterTimeRangeEnd then
        (case filterTimeRangeStart of
           Some (JStr a) \<Rightarrow>
             (case filterTimeRangeEnd of
                Some (JStr b) \<Rightarrow>
                  if list_all hasStart events then Some (filter (rangeMatches e a b) events)
                  else None
              | _ \<Rightarrow> None)
         | _ \<Rightarrow> None)
      else Some events)"

text \<open>The cascade on the fetched events, for the search descriptor \<open>ds\<close>.\<close>

definition cascade :: "env \<Rightarrow> json \<Rightarrow> CalendarEvent list \<Rightarrow> CalendarEvent list option" where
  "cascade e ds events =
     (case titleFilter (field ds ''searchTerm'') events of
        None \<Rightarrow> None
      | Some byTitle \<Rightarrow>
          (case timeFilter e (field ds ''time'') byTitle of
             None \<Rightarrow> None
           | Some byTime \<Rightarrow>
               rangeFilter e (field ds ''timeRangeStart'') (field ds ''timeRangeEnd'') byTime))"

definition noMatch :: reply where
  "noMatch =
     textReply ''I couldn't find any appointments matching that. Can you give me more details like the exact time or what the appointment is for?''
       ''I couldn't find that appointment. Can you give me more details?''"

definition troubleSearching :: reply where
  "troubleSearching =
     textReply ''I had trouble searching your calendar. Please try again.''
       ''I had trouble searching your calendar. Please try again.''"

text \<open>
  The reply for the events that are left; \<open>None\<close> when reading the start of the single
  event throws.  \<open>message\<close> is the message of the parsed completion.
\<close>

definition deleteOutcome :: "env \<Rightarrow> json option \<Rightarrow> CalendarEvent list \<Rightarrow> reply option" where
  "deleteOutcome e message events =
     (case events of
        [] \<Rightarrow> Some noMatch
      | [evt] \<Rightarrow>
          (case ce_start evt of
             None \<Rightarrow> None
           | Some st \<Rightarrow>
               (let evtTime = (if CHR ''T'' \<in> set st then toLocaleTimeString e st
                               else ''all day'')
                in Some \<lparr>rp_message = message,
                         rp_speech = Some (''Delete '' @ ce_title evt @ '' at '' @ evtTime @ ''?''),
                         rp_action = ''delete'', rp_appointment = JNull, rp_readRange = JNull,
                         rp_events = None, rp_deleteEvent = Some evt,
                         rp_multipleEvents = None\<rparr>))
      | _ \<Rightarrow>
          (let eventsToShow = take 10 events;
               n = natToString (length events);
               s = (if 1 < length events then ''s'' else [])
           in Some \<lparr>rp_message = Some (JStr (''I found '' @ n @ '' appointment'' @ s
                        @ '' matching your request. Select which ones to delete:'')),
                    rp_speech = Some (''Found '' @ n
                        @ '' matching appointments. Please select on screen.''),
                    rp_action = ''delete_multiple'', rp_appointment = JNull,
                    rp_readRange = JNull, rp_events = None, rp_deleteEvent = None,
                    rp_multipleEvents = Some eventsToShow\<rparr>))"

text \<open>The search window: the given date, or 30 days to either side of now.\<close>

definition searchWindow :: "env \<Rightarrow> json option \<Rightarrow> dateRange" where
  "searchWindow e d =
     (let tz = tzOffset (env_clock e)
      in if truthyJ d then
           \<lparr>timeMin = toStringJ (case d of None \<Rightarrow> JNull | Some v \<Rightarrow> v) @ ''T00:00:00'' @ tz,
            timeMax = toStringJ (case d of None \<Rightarrow> JNull | Some v \<Rightarrow> v) @ ''T23:59:59'' @ tz\<rparr>
         else
           (let now = env_now e;
                past = setDateTV (env_zone e) now (getDateTV (env_zone e) now - 30);
                future = setDateTV (env_zone e) now (getDateTV (env_zone e) now + 30)
            in \<lparr>timeMin = isoDatePart past @ ''T00:00:00'' @ tz,
                timeMax = isoDatePart future @ ''T23:59:59'' @ tz\<rparr>))"

definition fetched :: "env \<Rightarrow> json \<Rightarrow> CalendarEvent list" where
  "fetched e ds =
     (let w = searchWindow e (field ds ''date'')
      in concat (map (\<lambda>cal. fetchEvents searchEvent cal
                    (upstream e (cal_id cal) (timeMin w) (timeMax w)))
           (calendarsToSearch (activeCalendars e))))"

definition deleteBranch :: "env \<Rightarrow> json option \<Rightarrow> json \<Rightarrow> chatResult" where
  "deleteBranch e message ds =
     (if truthyJ (field ds ''needsClarification'') then
        Reply \<lparr>rp_message = message, rp_speech = None, rp_action = ''none'',
               rp_appointment = JNull, rp_readRange = JNull, rp_events = None,
               rp_deleteEvent = None, rp_multipleEvents = None\<rparr>
      else if falsy (providerToken e) then Reply cannotAccess
      else
        (case cascade e ds (fetched e ds) of
           None \<Rightarrow> Reply troubleSearching
         | Some events \<Rightarrow>
             (case deleteOutcome e message events of
                None \<Rightarrow> Reply troubleSearching
              | Some r \<Rightarrow> Reply r)))"

text \<open>
  The reply when \<open>JSON.parse\<close> throws, and the body that is passed through otherwise:
  the properties of the parsed value with \<open>speech\<close> set to \<open>speech || message\<close> (a
  property that is \<open>undefined\<close> is not sent).
\<close>

definition rephrase :: reply where
  "rephrase =
     textReply ''I had trouble understanding that. Could you rephrase?''
       ''I had trouble understanding that. Could you rephrase?''"

definition spread :: "json \<Rightarrow> (string \<times> json) list" where
  "spread v =
     (case v of
        JObj fs \<Rightarrow> fs
      | JArr xs \<Rightarrow> map (\<lambda>i. (natToString i, xs ! i)) [0..<length xs]
      | JStr s \<Rightarrow> map (\<lambda>i. (natToString i, JStr [s ! i])) [0..<length s]
      | _ \<Rightarrow> [])"

definition setSpeech :: "json option \<Rightarrow> (string \<times> json) list \<Rightarrow> (string \<times> json) list" where
  "setSpeech v fs =
     (case v of
        None \<Rightarrow> filter (\<lambda>kv. fst kv \<noteq> ''speech'') fs
      | Some w \<Rightarrow>
          if map_of fs ''speech'' = None then fs @ [(''speech'', w)]
          else map (\<lambda>kv. if fst kv = ''speech'' then (''speech'', w) else kv) fs)"

definition finalResponse :: "json \<Rightarrow> (string \<times> json) list" where
  "finalResponse parsed =
     setSpeech (orJ (field parsed ''speech'') (field parsed ''message'')) (spread parsed)"

definition orNull :: "json option \<Rightarrow> json" where
  "orNull v = (case v of None \<Rightarrow> JNull | Some w \<Rightarrow> w)"

text \<open>
  The handler from the content of the completion on.  \<open>content\<close> is the string the engine
  returned (absent when the response has none), and \<open>parsed\<close> is what
  \<open>JSON.parse(content)\<close> returns, \<open>None\<close> when it throws.  Reading a property of
  \<open>null\<close> throws, which the outer \<open>catch\<close> turns into status 500.
\<close>

definition handleContent :: "env \<Rightarrow> string option \<Rightarrow> json option \<Rightarrow> chatResult" where
  "handleContent e content parsed =
     (if falsy content then Failed 500 ''No response from AI''
      else
        (case parsed of
           None \<Rightarrow> Reply rephrase
         | Some p \<Rightarrow>
             if p = JNull then Failed 500 ''Failed to process request''
             else if field p ''action'' = Some (JStr ''read'') \<and> truthyJ (field p ''readRange'') then
               readBranch e (orNull (field p ''readRange''))
             else if field p ''action'' = Some (JStr ''delete'') \<and> truthyJ (field p ''deleteSearch'') then
               deleteBranch e (field p ''message'') (orNull (field p ''deleteSearch''))
             else Passed (finalResponse p)))"

text \<open>
  The shape the handler expects of the completion, after the interface \<open>ChatResponse\<close>: an
  object with a string \<open>message\<close>, an \<open>action\<close> among the four kinds, and the properties
  \<open>appointment\<close> and \<open>readRange\<close>.
\<close>

definition expectedShape :: "json \<Rightarrow> bool" where
  "expectedShape v =
     (case field v ''message'' of
        Some (JStr m) \<Rightarrow>
          (case field v ''action'' of
             Some (JStr a) \<Rightarrow>
               a \<in> set [''create'', ''read'', ''delete'', ''none'']
               \<and> field v ''appointment'' \<noteq> None \<and> field v ''readRange'' \<noteq> None
           | _ \<Rightarrow> False)
      | _ \<Rightarrow> False)"

text \<open>A comparator by code units, for concrete runs of the handler.\<close>

fun codeUnitCompare :: "string \<Rightarrow> string \<Rightarrow> int" where
  "codeUnitCompare [] [] = 0"
| "codeUnitCompare [] (y # ys) = - 1"
| "codeUnitCompare (x # xs) [] = 1"
| "codeUnitCompare (x # xs) (y # ys) =
     (if (of_char x :: nat) < of_char y then - 1
      else if (of_char y :: nat) < of_char x then 1
      else codeUnitCompare xs ys)"

text \<open>
  A concrete clock: Monday 2 November 2026 in Los Angeles, on a host in Pacific Standard
  Time (offset 480 minutes now and in January, 420 in July).
\<close>

definition clockNov2 :: clock where
  "clockNov2 = \<lparr>laYear = 2026, laMonth = 11, laDay = 2,
                 janOffset = 480, julOffset = 420, nowOffset = 480\<rparr>"

text \<open>
  Concrete surroundings for runs of the handler.  The library functions are stood in for
  by functions that read the wall-clock digits of a start such as
  \<open>2026-11-03T09:15:00-08:00\<close>, which is what a host in the zone of the event sees.
\<close>

definition wallHours :: "string \<Rightarrow> int option" where
  "wallHours s =
     (if 16 \<le> length s \<and> list_all isDigit (take 2 (drop 11 s))
      then Some (parseDigits (take 2 (drop 11 s))) else None)"

definition wallMinutes :: "string \<Rightarrow> int option" where
  "wallMinutes s =
     (if 16 \<le> length s \<and> list_all isDigit (take 2 (drop 14 s))
      then Some (parseDigits (take 2 (drop 14 s))) else None)"

definition wallTime :: "string \<Rightarrow> string" where
  "wallTime s = take 5 (drop 11 s)"

definition rawTimed :: "string \<Rightarrow> string \<Rightarrow> string \<Rightarrow> rawEvent" where
  "rawTimed i t st =
     \<lparr>raw_id = i, raw_summary = Some t,
      raw_start = \<lparr>dateTime = Some st, date = None, timeZone = None\<rparr>,
      raw_end = \<lparr>dateTime = Some st, date = None, timeZone = None\<rparr>,
      raw_location = None\<rparr>"

definition rawAllDay :: "string \<Rightarrow> string \<Rightarrow> string \<Rightarrow> rawEvent" where
  "rawAllDay i t d =
     \<lparr>raw_id = i, raw_summary = Some t,
      raw_start = \<lparr>dateTime = None, date = Some d, timeZone = None\<rparr>,
      raw_end = \<lparr>dateTime = None, date = Some d, timeZone = None\<rparr>,
      raw_location = None\<rparr>"

definition homeItems :: "rawEvent list" where
  "homeItems =
     [rawTimed ''e1'' ''Team Lunch'' ''2026-11-03T12:00:00-08:00'',
      rawTimed ''e2'' ''Dentist'' ''2026-11-03T09:15:00-08:00'',
      rawAllDay ''e3'' ''Dentist follow-up'' ''2026-11-05'']"

text \<open>The calendar \<open>home\<close> answers, \<open>work\<close> answers with an error status, any other
  calendar fails in the network.\<close>

definition demoUpstream :: "string \<Rightarrow> string \<Rightarrow> string \<Rightarrow> fetchResult" where
  "demoUpstream calId tMin tMax =
     (if calId = ''home'' then Items (Some homeItems)
      else if calId = ''work'' then NotOk else FetchThrows)"

definition calendarNamed :: "string \<Rightarrow> CalendarInfo" where
  "calendarNamed n = \<lparr>cal_id = n, cal_name = n, cal_color = ''#000000''\<rparr>"

definition demoEnv :: env where
  "demoEnv =
     \<lparr>providerToken = Some ''token'',
      activeCalendars = [calendarNamed ''work'', calendarNamed ''home'', calendarNamed ''kids''],
      env_clock = clockNov2, env_zone = losAngeles, env_now = 1793649600000,
      upstream = demoUpstream, localeCompare = codeUnitCompare,
      getHours = wallHours, getMinutes = wallMinutes, toLocaleTimeString = wallTime,
      formatEventsMessage = (\<lambda>events description names. description),
      formatEventsSpeech = (\<lambda>events description. description),
      rangeDescription = (\<lambda>r. r)\<rparr>"




section \<open>Properties of the calendar arithmetic\<close>

lemma div_lower: "0 < n \<Longrightarrow> n * (x div n) \<le> (x::int)"
proof -
  assume n: "0 < n"
  have "x = n * (x div n) + x mod n" by simp
  moreover have "0 \<le> x mod n" using n by simp
  ultimately show ?thesis by (metis add.commute le_add_same_cancel2)
qed

lemma div_upper: "0 < n \<Longrightarrow> (x::int) < n * (x div n) + n"
proof -
  assume n: "0 < n"
  have "x = n * (x div n) + x mod n" by simp
  moreover have "x mod n < n" using n by simp
  ultimately show ?thesis by (metis add_less_cancel_left)
qed

lemma estimate_lin_pos:
  "4 * a \<le> k + 1 \<Longrightarrow> 400 * b \<le> k + 369 \<Longrightarrow> k + 69 < 100 * c + 100 \<Longrightarrow> (2::int) \<le> k
     \<Longrightarrow> a + b \<le> k + c"
  by linarith

lemma estimate_lin_neg:
  "4 * a \<le> k + 1 \<Longrightarrow> 400 * b \<le> k + 369 \<Longrightarrow> k + 69 < 100 * c + 100 \<Longrightarrow> k \<le> (-7::int)
     \<Longrightarrow> a + b \<le> c"
  by linarith

lemma estimate_pos:
  assumes "(0::int) \<le> k"
  shows "(k + 1) div 4 + (k + 369) div 400 \<le> k + (k + 69) div 100"
proof -
  consider "k = 0" | "k = 1" | "2 \<le> k" using assms by linarith
  then show ?thesis
  proof cases
    case 3
    show ?thesis
      by (rule estimate_lin_pos [OF div_lower div_lower div_upper 3]) simp_all
  qed simp_all
qed

lemma estimate_neg:
  assumes "(k::int) < 0"
  shows "(k + 1) div 4 + (k + 369) div 400 \<le> (k + 69) div 100"
proof -
  consider "k = -1" | "k = -2" | "k = -3" | "k = -4" | "k = -5" | "k = -6" | "k \<le> -7"
    using assms by linarith
  then show ?thesis
  proof cases
    case 7
    show ?thesis
      by (rule estimate_lin_neg [OF div_lower div_lower div_upper 7]) simp_all
  qed simp_all
qed

lemma monthOfYearDay_range: "0 \<le> monthOfYearDay n l \<and> monthOfYearDay n l \<le> 11"
  by (simp add: monthOfYearDay_def Let_def)

lemma MonthFromDay_range: "0 \<le> MonthFromDay t \<and> MonthFromDay t \<le> 11"
  unfolding MonthFromDay_def by (rule monthOfYearDay_range)

lemma MakeDay_fields: "MakeDay (YearFromDay t) (MonthFromDay t) (DateFromDay t + k) = t + k"
proof -
  have r: "0 \<le> MonthFromDay t" "MonthFromDay t \<le> 11"
    using MonthFromDay_range [of t] by simp_all
  then have dm: "MonthFromDay t div 12 = 0" "MonthFromDay t mod 12 = MonthFromDay t"
    by simp_all
  show ?thesis
    by (simp add: MakeDay_def Let_def dm DateFromDay_def DayWithinYear_def)
qed

lemma setDate_getDate: "setDate t (getDate t + k) = t + k"
  unfolding setDate_def getDate_def by (rule MakeDay_fields)

lemma setDate_getDate_minus: "setDate t (getDate t - k) = t - k"
  using setDate_getDate [of t "- k"] by simp

lemma yearSearch_bounds:
  "DayFromYear y \<le> d \<Longrightarrow>
     DayFromYear (yearSearch d y) \<le> d \<and> d < DayFromYear (yearSearch d y + 1)"
proof (induction d y rule: yearSearch.induct)
  case (1 d y)
  show ?case
  proof (cases "DayFromYear (y + 1) \<le> d")
    case True
    then show ?thesis using "1.IH" [OF True True] by (subst (1 2) yearSearch.simps) simp
  next
    case False
    then show ?thesis using "1.prems" by (subst (1 2) yearSearch.simps) simp
  qed
qed

lemma yearEstimate_le: "DayFromYear (yearEstimate d) \<le> d"
proof (cases "0 \<le> d")
  case True
  define k where "k = d div 366"
  define a where "a = (k + 1) div 4"
  define b where "b = (k + 69) div 100"
  define c where "c = (k + 369) div 400"
  have k: "0 \<le> k" using True by (simp add: k_def pos_imp_zdiv_nonneg_iff)
  have dk: "366 * k \<le> d" unfolding k_def by (rule div_lower) simp
  have e: "a + c \<le> k + b" using estimate_pos [OF k] by (simp add: a_def b_def c_def)
  have "DayFromYear (1970 + k) = 365 * k + a - b + c"
    by (simp add: DayFromYear_def a_def b_def c_def algebra_simps)
  with dk e have "DayFromYear (1970 + k) \<le> d" by linarith
  then show ?thesis using True by (simp add: yearEstimate_def k_def)
next
  case False
  define k where "k = d div 365"
  define a where "a = (k + 1) div 4"
  define b where "b = (k + 69) div 100"
  define c where "c = (k + 369) div 400"
  have k: "k < 0" using False by (simp add: k_def div_neg_pos_less0)
  have dk: "365 * k \<le> d" unfolding k_def by (rule div_lower) simp
  have e: "a + c \<le> b" using estimate_neg [OF k] by (simp add: a_def b_def c_def)
  have "DayFromYear (1970 + k) = 365 * k + a - b + c"
    by (simp add: DayFromYear_def a_def b_def c_def algebra_simps)
  with dk e have "DayFromYear (1970 + k) \<le> d" by linarith
  then show ?thesis using False by (simp add: yearEstimate_def k_def)
qed

lemma YearFromDay_bounds:
  "DayFromYear (YearFromDay d) \<le> d \<and> d < DayFromYear (YearFromDay d + 1)"
  unfolding YearFromDay_def by (rule yearSearch_bounds [OF yearEstimate_le])

lemma div_step:
  assumes n: "0 < n"
  shows "((x::int) + 1) div n = x div n + (if (x + 1) mod n = 0 then 1 else 0)"
proof -
  define q where "q = x div n"
  define r where "r = x mod n"
  have x: "x = n * q + r" by (simp add: q_def r_def)
  have r: "0 \<le> r" "r < n" using n by (simp_all add: r_def)
  show ?thesis
  proof (cases "r = n - 1")
    case True
    then have "x + 1 = n * (q + 1) + 0" using x by (simp add: algebra_simps)
    then have "(x + 1) div n = q + 1" "(x + 1) mod n = 0"
      using n int_div_pos_eq [of "x + 1" n "q + 1" 0] int_mod_pos_eq [of "x + 1" n "q + 1" 0]
      by simp_all
    then show ?thesis by (simp add: q_def)
  next
    case False
    then have b: "0 \<le> r + 1" "r + 1 < n" using r by simp_all
    have "x + 1 = n * q + (r + 1)" using x by simp
    then have "(x + 1) div n = q" "(x + 1) mod n = r + 1"
      using b int_div_pos_eq [of "x + 1" n q "r + 1"] int_mod_pos_eq [of "x + 1" n q "r + 1"]
      by simp_all
    then show ?thesis using r by (simp add: q_def)
  qed
qed

lemma mod_shift4: "(y - 1968) mod 4 = (y::int) mod 4"
  using mod_mult_self1 [of y "- 492" 4] by simp

lemma mod_shift100: "(y - 1900) mod 100 = (y::int) mod 100"
  using mod_mult_self1 [of y "- 19" 100] by simp

lemma mod_shift400: "(y - 1600) mod 400 = (y::int) mod 400"
  using mod_mult_self1 [of y "- 4" 400] by simp

lemma DayFromYear_Suc:
  "DayFromYear (y + 1) = DayFromYear y + (if InLeapYear y then 366 else 365)"
proof -
  have a: "(y - 1968) div 4 = (y - 1969) div 4 + (if y mod 4 = 0 then 1 else 0)"
    using div_step [of 4 "y - 1969"] mod_shift4 [of y] by (simp add: algebra_simps)
  have b: "(y - 1900) div 100 = (y - 1901) div 100 + (if y mod 100 = 0 then 1 else 0)"
    using div_step [of 100 "y - 1901"] mod_shift100 [of y] by (simp add: algebra_simps)
  have c: "(y - 1600) div 400 = (y - 1601) div 400 + (if y mod 400 = 0 then 1 else 0)"
    using div_step [of 400 "y - 1601"] mod_shift400 [of y] by (simp add: algebra_simps)
  have d1: "y mod 100 = 0 \<Longrightarrow> y mod 4 = 0"
    using mod_mod_cancel [of 4 100 y] by simp
  have d2: "y mod 400 = 0 \<Longrightarrow> y mod 100 = 0"
    using mod_mod_cancel [of 100 400 y] by simp
  show ?thesis
  proof (cases "y mod 4 = 0")
    case False
    with d1 d2 have "y mod 100 \<noteq> 0" "y mod 400 \<noteq> 0" by auto
    with False show ?thesis by (simp add: DayFromYear_def a b c InLeapYear_def)
  next
    case y4: True
    show ?thesis
    proof (cases "y mod 100 = 0")
      case False
      with d2 have "y mod 400 \<noteq> 0" by auto
      with y4 False show ?thesis by (simp add: DayFromYear_def a b c InLeapYear_def)
    next
      case True
      with y4 show ?thesis by (simp add: DayFromYear_def a b c InLeapYear_def)
    qed
  qed
qed

lemma DayFromYear_less: "DayFromYear y < DayFromYear (y + 1)"
  by (simp add: DayFromYear_Suc)

lemma DayFromYear_mono_nat: "DayFromYear y \<le> DayFromYear (y + int n)"
proof (induction n)
  case 0
  then show ?case by simp
next
  case (Suc n)
  have "DayFromYear (y + int n) < DayFromYear (y + int n + 1)" by (rule DayFromYear_less)
  moreover have eq: "y + int (Suc n) = y + int n + 1" by simp
  ultimately show ?case unfolding eq using Suc by linarith
qed

lemma DayFromYear_mono: "y \<le> z \<Longrightarrow> DayFromYear y \<le> DayFromYear z"
  using DayFromYear_mono_nat [of y "nat (z - y)"] by simp

lemma YearFromDay_unique:
  assumes "DayFromYear y \<le> d" and "d < DayFromYear (y + 1)"
  shows "YearFromDay d = y"
proof (rule ccontr)
  assume ne: "YearFromDay d \<noteq> y"
  let ?z = "YearFromDay d"
  have zb: "DayFromYear ?z \<le> d" "d < DayFromYear (?z + 1)"
    using YearFromDay_bounds [of d] by simp_all
  show False
  proof (cases "?z < y")
    case True
    then have "DayFromYear (?z + 1) \<le> DayFromYear y" by (intro DayFromYear_mono) simp
    with zb assms show False by linarith
  next
    case False
    with ne have "DayFromYear (y + 1) \<le> DayFromYear ?z" by (intro DayFromYear_mono) simp
    with zb assms show False by linarith
  qed
qed

lemma month_cases:
  "0 \<le> m \<Longrightarrow> m \<le> 11 \<Longrightarrow>
     (m::int) \<in> {0, 1, 2, 3, 4, 5, 6, 7, 8, 9, 10, 11}"
  by (simp, arith)

lemma civil_roundtrip:
  assumes m: "0 \<le> m" "m \<le> 11" and dd: "1 \<le> dd" "dd \<le> daysInMonth y m"
  shows "YearFromDay (MakeDay y m dd) = y \<and> MonthFromDay (MakeDay y m dd) = m
           \<and> DateFromDay (MakeDay y m dd) = dd"
proof -
  let ?L = "InLeapYear y"
  let ?n = "monthStart m ?L + dd - 1"
  have dm: "m div 12 = 0" "m mod 12 = m" using m by simp_all
  have md: "MakeDay y m dd = DayFromYear y + ?n"
    by (simp add: MakeDay_def Let_def dm)
  have mc: "m \<in> {0, 1, 2, 3, 4, 5, 6, 7, 8, 9, 10, 11}" using m by (rule month_cases)
  have n: "0 \<le> ?n \<and> ?n < (if ?L then 366 else 365)"
    using mc dd by (cases ?L; elim insertE emptyE; simp add: monthStart_def daysInMonth_def)
  have yr: "YearFromDay (MakeDay y m dd) = y"
    unfolding md by (rule YearFromDay_unique) (use n in \<open>simp_all add: DayFromYear_Suc split: if_splits\<close>)
  have dwy: "DayWithinYear (MakeDay y m dd) = ?n"
    unfolding DayWithinYear_def yr by (simp add: md)
  have mo: "monthOfYearDay ?n ?L = m"
    using mc dd
    by (cases ?L; elim insertE emptyE;
        simp add: monthOfYearDay_def monthStart_def daysInMonth_def)
  show ?thesis
    by (simp add: yr MonthFromDay_def DateFromDay_def dwy mo)
qed

section \<open>Properties of the date range resolver\<close>

lemma WeekDay_range: "0 \<le> WeekDay t \<and> WeekDay t \<le> 6"
  by (simp add: WeekDay_def)

lemma WeekDay_sunday: "WeekDay (t - WeekDay t) = 0"
  unfolding WeekDay_def by presburger

lemma WeekDay_saturday: "WeekDay (t - WeekDay t + 6) = 6"
  unfolding WeekDay_def by presburger

lemma week_of_days:
  assumes "weekOfMatch tok"
  shows "calculateDateRange c tok =
           (let iso = drop 8 tok;
                t = newDate (parseDigits (yearStr iso)) (parseDigits (monthStr iso) - 1)
                      (parseDigits (dayStr iso))
            in \<lparr>timeMin = formatDate (t - WeekDay t) @ ''T00:00:00'' @ tzOffset c,
                timeMax = formatDate (t - WeekDay t + 6) @ ''T23:59:59'' @ tzOffset c\<rparr>)"
  using assms
  by (simp add: calculateDateRange_def Let_def getDay_def setDate_getDate setDate_getDate_minus)

lemma rangeDates_days:
  "rangeDates t key =
     (if key = ''today'' then (t, t)
      else if key = ''yesterday'' then (t - 1, t - 1)
      else if key = ''tomorrow'' then (t + 1, t + 1)
      else if key = ''last_week'' \<or> key = ''last week'' \<or> key = ''past week'' then (t - 7, t)
      else if key = ''this_week'' \<or> key = ''this week'' then
        (t - (if WeekDay t = 0 then 6 else WeekDay t - 1),
         t - (if WeekDay t = 0 then 6 else WeekDay t - 1) + 6)
      else if key = ''next_week'' \<or> key = ''next week'' then
        (t + (if WeekDay t = 0 then 1 else 8 - WeekDay t),
         t + (if WeekDay t = 0 then 1 else 8 - WeekDay t) + 6)
      else if key = ''last_month'' \<or> key = ''last month'' \<or> key = ''past month'' then (t - 30, t)
      else (t, t + 7))"
  unfolding rangeDates_def Let_def getDay_def setDate_getDate setDate_getDate_minus
  by (rule refl)


text \<open>
  For a token \<open>week_of:YYYY-MM-DD\<close> that names a calendar date with a year of at least
  100, the resolver returns the week from a Sunday \<open>s\<close> to the Saturday \<open>s + 6\<close> that
  contains the day \<open>t\<close> of that date.
\<close>

lemma week_of_contains_date:
  assumes tok: "weekOfMatch tok"
    and y: "y = parseDigits (yearStr (drop 8 tok))"
    and m: "m = parseDigits (monthStr (drop 8 tok))"
    and d: "d = parseDigits (dayStr (drop 8 tok))"
    and year: "100 \<le> y"
    and valid: "validCivil y m d"
  shows "\<exists>s t. WeekDay s = 0 \<and> s \<le> t \<and> t \<le> s + 6
           \<and> YearFromDay t = y \<and> MonthFromDay t + 1 = m \<and> DateFromDay t = d
           \<and> calculateDateRange c tok =
               \<lparr>timeMin = formatDate s @ ''T00:00:00'' @ tzOffset c,
                timeMax = formatDate (s + 6) @ ''T23:59:59'' @ tzOffset c\<rparr>"
proof -
  define t where "t = MakeDay y (m - 1) d"
  have nd: "newDate y (m - 1) d = t" using year by (simp add: newDate_def t_def)
  have fields: "YearFromDay t = y \<and> MonthFromDay t = m - 1 \<and> DateFromDay t = d"
    unfolding t_def using valid by (intro civil_roundtrip) (simp_all add: validCivil_def)
  have res: "calculateDateRange c tok =
      \<lparr>timeMin = formatDate (t - WeekDay t) @ ''T00:00:00'' @ tzOffset c,
       timeMax = formatDate (t - WeekDay t + 6) @ ''T23:59:59'' @ tzOffset c\<rparr>"
    using week_of_days [OF tok, of c] nd by (simp add: Let_def y m d)
  have wd: "0 \<le> WeekDay t \<and> WeekDay t \<le> 6" by (rule WeekDay_range)
  show ?thesis
    by (intro exI [of _ "t - WeekDay t"] exI [of _ t])
       (use wd fields res in \<open>simp add: WeekDay_sunday\<close>)
qed

lemma week_of_2026_03_18:
  "calculateDateRange clockNov2 ''week_of:2026-03-18'' =
     \<lparr>timeMin = ''2026-03-15T00:00:00-08:00'', timeMax = ''2026-03-21T23:59:59-08:00''\<rparr>"
  by code_simp

text \<open>
  Claim C1.  The resolver is to return, for \<open>week_of:YYYY-MM-DD\<close>, the Sunday-to-Saturday
  week containing that date.  It does so for years from 0100 on (\<open>week_of_contains_date\<close>,
  \<open>week_of_2026_03_18\<close>).  For a year from 0000 to 0099 the constructor
  \<open>new Date(year, month, day)\<close> reads the year as 1900 + year: the token
  \<open>week_of:0026-03-18\<close> resolves to the week of 14 to 20 March 1926, which does not
  contain 18 March 0026.
\<close>

theorem week_of_two_digit_year:
  "calculateDateRange clockNov2 ''week_of:0026-03-18'' =
     \<lparr>timeMin = ''1926-03-14T00:00:00-08:00'', timeMax = ''1926-03-20T23:59:59-08:00''\<rparr>"
  by code_simp


text \<open>
  Claim C9.  A token that matches neither the \<open>week_of\<close> pattern nor a bare ISO date,
  and whose lower-cased form is no case label of the switch, resolves without error to the
  default window: today through today plus 7 days, which is the result for \<open>upcoming\<close>.
\<close>

theorem unrecognized_token_upcoming:
  assumes "\<not> weekOfMatch tok" and "\<not> isoDateMatch tok" and "toLowerCase tok \<notin> set rangeKeys"
  shows "calculateDateRange c tok =
           (let today = newDate (laYear c) (laMonth c - 1) (laDay c)
            in \<lparr>timeMin = formatDate today @ ''T00:00:00'' @ tzOffset c,
                timeMax = formatDate (today + 7) @ ''T23:59:59'' @ tzOffset c\<rparr>)
         \<and> calculateDateRange c tok = calculateDateRange c ''upcoming''"
proof -
  have keys: "rangeDates t (toLowerCase tok) = (t, t + 7)" for t
    using assms(3) unfolding rangeDates_days by (simp add: rangeKeys_def)
  have up: "rangeDates t ''upcoming'' = (t, t + 7)" for t
    unfolding rangeDates_days by simp
  have w: "\<not> weekOfMatch ''upcoming''" "\<not> isoDateMatch ''upcoming''"
    by (simp_all add: weekOfMatch_def isoDateMatch_def)
  have l: "toLowerCase ''upcoming'' = ''upcoming''"
    by (simp add: toLowerCase_def lowerChar_def)
  show ?thesis
    using assms(1,2) w by (simp add: calculateDateRange_def Let_def keys up l)
qed

theorem unrecognized_token_upcoming_witness:
  "\<not> weekOfMatch ''next month'' \<and> \<not> isoDateMatch ''next month''
     \<and> toLowerCase ''next month'' \<notin> set rangeKeys
     \<and> calculateDateRange clockNov2 ''next month'' =
         \<lparr>timeMin = ''2026-11-02T00:00:00-08:00'', timeMax = ''2026-11-09T23:59:59-08:00''\<rparr>
     \<and> calculateDateRange clockNov2 ''next month'' = calculateDateRange clockNov2 ''upcoming''"
proof -
  have h1: "\<not> weekOfMatch ''next month''" by code_simp
  have h2: "\<not> isoDateMatch ''next month''" by code_simp
  have h3: "toLowerCase ''next month'' \<notin> set rangeKeys" by code_simp
  have f1: "formatDate (newDate 2026 10 2) = ''2026-11-02''" by code_simp
  have f2: "formatDate (newDate 2026 10 2 + 7) = ''2026-11-09''" by code_simp
  have tz: "tzOffset clockNov2 = ''-08:00''" by code_simp
  have c: "laYear clockNov2 = 2026" "laMonth clockNov2 = 11" "laDay clockNov2 = 2"
    by (simp_all add: clockNov2_def)
  note r = unrecognized_token_upcoming [OF h1 h2 h3, of clockNov2]
  have r1: "calculateDateRange clockNov2 ''next month'' =
      \<lparr>timeMin = ''2026-11-02T00:00:00-08:00'', timeMax = ''2026-11-09T23:59:59-08:00''\<rparr>"
    using r [THEN conjunct1] by (simp add: Let_def c f1 f2 tz)
  show ?thesis using h1 h2 h3 r1 r [THEN conjunct2] by blast
qed

subsection \<open>The bounds as instants\<close>




























section \<open>Properties of event creation\<close>

lemma foldl_digits_nonneg:
  "list_all isDigit s \<Longrightarrow> 0 \<le> acc \<Longrightarrow> 0 \<le> foldl (\<lambda>acc c. 10 * acc + digitVal c) acc s"
proof (induction s arbitrary: acc)
  case Nil
  then show ?case by simp
next
  case (Cons c s)
  from Cons.prems have "0 \<le> 10 * acc + digitVal c"
    by (simp add: isDigit_def digitVal_def)
  with Cons show ?case by simp
qed

lemma parseDigits_nonneg: "list_all isDigit s \<Longrightarrow> 0 \<le> parseDigits s"
  unfolding parseDigits_def by (rule foldl_digits_nonneg) simp_all

lemma addRecurrence_times:
  "ev_start (addRecurrence rc ev) = ev_start ev \<and> ev_end (addRecurrence rc ev) = ev_end ev"
  by (simp add: addRecurrence_def split: option.splits)

lemma minutes_of_day:
  "60 * ((n div 60) mod 24) + n mod 60 = (n::int) mod 1440"
  using zmod_zmult2_eq [of 24 n 60] by simp

text \<open>
  Claim C3.  A timed request with a time \<open>HH:MM\<close> (hour below 24, minute below 60) and a
  positive duration yields an event whose end time is start plus duration taken modulo 24
  hours (\<open>60 * eh + em\<close> is the minute of the day of start plus duration), while the date
  part of the end is the date of the request, as it is for the start.
\<close>

theorem timed_event_end:
  assumes cal: "truthy (req_calendarId r)" and title: "truthy (req_title r)"
    and dt: "req_date r = Some dt" and iso: "isoDateMatch dt"
    and timed: "req_allDay r \<noteq> Some True"
    and tm: "req_time r = Some tm" and tmm: "timeMatch tm"
    and h: "h = parseDigits (take 2 tm)" "h < 24"
    and mi: "mi = parseDigits (drop 3 tm)" "mi < 60"
    and dur: "req_duration r = Some dur" "0 < dur"
    and eh: "eh = ((h * 60 + mi + dur) div 60) mod 24"
    and em: "em = (h * 60 + mi + dur) mod 60"
  shows "\<exists>ev. buildEvent z r = Inr ev
           \<and> dateTime (ev_start ev) = Some (dt @ ''T'' @ tm @ '':00'')
           \<and> dateTime (ev_end ev) =
               Some (dt @ ''T'' @ padStart0 2 (intToString eh) @ '':''
                       @ padStart0 2 (intToString em) @ '':00'')
           \<and> 60 * eh + em = (60 * h + mi + dur) mod 1440"
proof -
  have h0: "0 \<le> h" unfolding h using tmm by (intro parseDigits_nonneg) (simp add: timeMatch_def)
  have m0: "0 \<le> mi" unfolding mi using tmm by (intro parseDigits_nonneg) (simp add: timeMatch_def)
  have tot: "0 \<le> h * 60 + mi + dur" using h0 m0 dur by simp
  then have q: "0 \<le> (h * 60 + mi + dur) div 60" by (simp add: pos_imp_zdiv_nonneg_iff)
  have ne: "tm \<noteq> []" using tmm by (auto simp: timeMatch_def)
  have dne: "dt \<noteq> []" using iso by (auto simp: isoDateMatch_def)
  have d0: "dur \<noteq> 0" using dur by simp
  have pre: "\<not> (falsy (req_calendarId r) \<or> falsy (req_title r) \<or> falsy (req_date r))"
    using cal title dt dne by (simp add: falsy_def truthy_def)
  have tt: "truthy (req_time r)" using tm ne by (simp add: truthy_def)
  have "60 * eh + em = (60 * h + mi + dur) mod 1440"
    unfolding eh em using minutes_of_day [of "h * 60 + mi + dur"] by (simp add: mult.commute)
  moreover have "buildEvent z r = Inr (addRecurrence (req_recurrence r)
      \<lparr>ev_summary = strOf (req_title r),
       ev_description = orUndefined (req_description r),
       ev_location = orUndefined (req_location r),
       ev_start = \<lparr>dateTime = Some (dt @ ''T'' @ tm @ '':00''), date = None,
                    timeZone = Some ''America/Los_Angeles''\<rparr>,
       ev_end = \<lparr>dateTime = Some (dt @ ''T'' @ padStart0 2 (intToString eh) @ '':''
                       @ padStart0 2 (intToString em) @ '':00''), date = None,
                  timeZone = Some ''America/Los_Angeles''\<rparr>,
       ev_recurrence = None\<rparr>)"
    unfolding buildEvent_def Let_def
    using pre tt timed tmm iso tot q d0
    by (simp add: dt tm dur strOf_def falsy_def jsRem_def h mi eh em)
  ultimately show ?thesis by (simp add: addRecurrence_times)
qed

theorem timed_event_end_witness:
  "\<exists>ev. buildEvent losAngeles lateRequest = Inr ev
     \<and> dateTime (ev_start ev) = Some ''2026-03-15T23:30:00''
     \<and> dateTime (ev_end ev) = Some ''2026-03-15T00:30:00''"
proof -
  have r: "truthy (req_calendarId lateRequest)" "truthy (req_title lateRequest)"
    "req_date lateRequest = Some ''2026-03-15''" "req_allDay lateRequest \<noteq> Some True"
    "req_time lateRequest = Some ''23:30''" "req_duration lateRequest = Some 60"
    by (simp_all add: lateRequest_def truthy_def)
  have iso: "isoDateMatch ''2026-03-15''" by code_simp
  have tmm: "timeMatch ''23:30''" by code_simp
  have h: "(23::int) = parseDigits (take 2 ''23:30'')" by code_simp
  have mi: "(30::int) = parseDigits (drop 3 ''23:30'')" by code_simp
  have eh: "(0::int) = ((23 * 60 + 30 + 60) div 60) mod 24" by simp
  have em: "(30::int) = (23 * 60 + 30 + 60) mod 60" by simp
  have p0: "padStart0 2 (intToString 0) = ''00''" by code_simp
  have p30: "padStart0 2 (intToString 30) = ''30''" by code_simp
  from timed_event_end [OF r(1) r(2) r(3) iso r(4) r(5) tmm h _ mi _ r(6) _ eh em, of losAngeles]
  show ?thesis by (simp add: p0 p30)
qed

text \<open>
  On a host whose zone has one fixed offset (UTC for instance), an all-day request with a
  calendar date gets the next day as its exclusive end.
\<close>

lemma setDateTV_fixed: "setDateTV (fixedZone c) t (getDateTV (fixedZone c) t + 1) = t + msPerDay"
proof -
  let ?lt = "t + c"
  have "MakeDay (YearFromDay (Day ?lt)) (MonthFromDay (Day ?lt)) (DateFromDay (Day ?lt) + 1)
          = Day ?lt + 1"
    by (rule MakeDay_fields)
  moreover have "Day ?lt * msPerDay + TimeWithinDay ?lt = ?lt"
    by (simp add: Day_def TimeWithinDay_def)
  ultimately show ?thesis
    by (simp add: setDateTV_def getDateTV_def LocalTime_def UTC_def fixedZone_def Let_def
        algebra_simps)
qed

lemma all_day_end_fixed_offset:
  assumes cal: "truthy (req_calendarId r)" and title: "truthy (req_title r)"
    and dt: "req_date r = Some dt" and iso: "isoDateMatch dt"
    and allDay: "req_allDay r = Some True"
    and tm: "falsy (req_time r) \<or> timeMatch (strOf (req_time r))"
    and day: "parseISODate dt = Some t0"
  shows "\<exists>ev. buildEvent (fixedZone c) r = Inr ev
           \<and> date (ev_start ev) = Some dt
           \<and> date (ev_end ev) = Some (isoDatePart (t0 + msPerDay))"
proof -
  have dne: "dt \<noteq> []" using iso by (auto simp: isoDateMatch_def)
  have pre: "\<not> (falsy (req_calendarId r) \<or> falsy (req_title r) \<or> falsy (req_date r))"
    using cal title dt dne by (simp add: falsy_def truthy_def)
  have tmok: "\<not> (truthy (req_time r) \<and> \<not> timeMatch (strOf (req_time r)))"
    using tm by (auto simp: falsy_def)
  have "buildEvent (fixedZone c) r = Inr (addRecurrence (req_recurrence r)
      \<lparr>ev_summary = strOf (req_title r),
       ev_description = orUndefined (req_description r),
       ev_location = orUndefined (req_location r),
       ev_start = \<lparr>dateTime = None, date = Some dt, timeZone = None\<rparr>,
       ev_end = \<lparr>dateTime = None, date = Some (isoDatePart (t0 + msPerDay)), timeZone = None\<rparr>,
       ev_recurrence = None\<rparr>)"
    unfolding buildEvent_def Let_def
    using pre iso allDay tmok
    by (simp add: dt day strOf_def setDateTV_fixed)
  then show ?thesis by (simp add: addRecurrence_times)
qed

lemma all_day_2026_03_15:
  "buildEvent losAngeles (allDayRequest ''2026-03-15'') =
     Inr \<lparr>ev_summary = ''Offsite'', ev_description = None, ev_location = None,
          ev_start = \<lparr>dateTime = None, date = Some ''2026-03-15'', timeZone = None\<rparr>,
          ev_end = \<lparr>dateTime = None, date = Some ''2026-03-16'', timeZone = None\<rparr>,
          ev_recurrence = None\<rparr>"
  by code_simp

text \<open>
  Claim C8.  An all-day request is to get the given date as start and the given date plus
  one day as exclusive end.  The handler parses the date as UTC midnight, adds the day
  with the local \<open>setDate\<close> and prints the UTC date.  On a host in America/Los_Angeles the
  local day that starts daylight time has 23 hours, and for the date \<open>2026-03-08\<close> the
  end comes out as \<open>2026-03-08\<close>, the start date itself.  On a host with a fixed offset
  (\<open>all_day_end_fixed_offset\<close>) and for \<open>2026-03-15\<close> (\<open>all_day_2026_03_15\<close>) the end is
  the next day.
\<close>

theorem all_day_end_dst_start:
  "buildEvent losAngeles (allDayRequest ''2026-03-08'') =
     Inr \<lparr>ev_summary = ''Offsite'', ev_description = None, ev_location = None,
          ev_start = \<lparr>dateTime = None, date = Some ''2026-03-08'', timeZone = None\<rparr>,
          ev_end = \<lparr>dateTime = None, date = Some ''2026-03-08'', timeZone = None\<rparr>,
          ev_recurrence = None\<rparr>"
  by code_simp

section \<open>Properties of the speech synthesis handler\<close>

text \<open>
  The empty string cleans to the empty string, and the handler answers it with
  \<open>Text is required\<close>, not with \<open>No speakable text\<close>: the guard \<open>!text\<close> comes first.
\<close>

theorem tts_empty_text_counterexample:
  "cleanText [] = []
     \<and> POST_tts echoEngine (Some (bodyWithText (Str []))) = (JsonError 400 ''Text is required'', [])
     \<and> fst (POST_tts echoEngine (Some (bodyWithText (Str [])))) \<noteq> JsonError 400 ''No speakable text''"
  by (simp add: cleanText_def stripEmoji_def trim_def POST_tts_def bodyWithText_def)

text \<open>
  Claim C10, as the handler has it.  A request whose text is absent, not a string or the
  empty string is rejected with status 400 and \<open>Text is required\<close>; a request whose text
  is a non-empty string that cleans to the empty string is rejected with status 400 and
  \<open>No speakable text\<close>.  In both cases no call reaches the synthesis engine.
\<close>

theorem tts_rejects_before_engine:
  "(tts_text b = Undefined \<or> tts_text b = NonString \<or> tts_text b = Str [] \<longrightarrow>
      POST_tts engine (Some b) = (JsonError 400 ''Text is required'', []))
   \<and> (\<forall>t. tts_text b = Str t \<and> t \<noteq> [] \<and> cleanText t = [] \<longrightarrow>
      POST_tts engine (Some b) = (JsonError 400 ''No speakable text'', []))"
  by (auto simp: POST_tts_def)

theorem tts_rejects_before_engine_witness:
  "POST_tts echoEngine (Some (bodyWithText Undefined)) = (JsonError 400 ''Text is required'', [])
   \<and> POST_tts echoEngine (Some (bodyWithText (Str [0x20, 0x2026, 0x20])))
       = (JsonError 400 ''No speakable text'', [])"
proof -
  have c: "cleanText [0x20, 0x2026, 0x20] = []"
    by (simp add: cleanText_def stripEmoji_def emojiClass_def matchLink_def matchBold_def
        trim_def isWhiteSpace_def)
  have t1: "tts_text (bodyWithText Undefined) = Undefined"
    and t2: "tts_text (bodyWithText (Str [0x20, 0x2026, 0x20])) = Str [0x20, 0x2026, 0x20]"
    by (simp_all add: bodyWithText_def)
  from tts_rejects_before_engine [of "bodyWithText Undefined" echoEngine] t1
  have a: "POST_tts echoEngine (Some (bodyWithText Undefined)) = (JsonError 400 ''Text is required'', [])"
    by blast
  from tts_rejects_before_engine [of "bodyWithText (Str [0x20, 0x2026, 0x20])" echoEngine] t2 c
  have b: "POST_tts echoEngine (Some (bodyWithText (Str [0x20, 0x2026, 0x20])))
       = (JsonError 400 ''No speakable text'', [])"
    by blast
  from a b show ?thesis by (rule conjI)
qed

section \<open>Properties of the chat handler\<close>

lemma mset_insertBy: "mset (insertBy after x ys) = add_mset x (mset ys)"
  by (induction ys) simp_all

lemma mset_sortBy: "mset (sortBy after xs) = mset xs"
  unfolding sortBy_def by (induction xs) (simp_all add: mset_insertBy)

lemma set_insertBy: "set (insertBy after x ys) = insert x (set ys)"
  by (induction ys) auto

lemma sorted_insertBy:
  assumes total: "\<And>a b. le a b \<or> le b a"
    and trans: "\<And>a b c. le a b \<Longrightarrow> le b c \<Longrightarrow> le a c"
    and sorted: "sorted_wrt le ys"
  shows "sorted_wrt le (insertBy (\<lambda>a b. \<not> le a b) x ys)"
  using sorted
proof (induction ys)
  case Nil
  then show ?case by simp
next
  case (Cons y ys)
  show ?case
  proof (cases "le x y")
    case True
    then have "\<forall>z\<in>set ys. le x z" using Cons.prems trans by auto
    with True Cons.prems show ?thesis by simp
  next
    case False
    then have "le y x" using total by blast
    with False Cons show ?thesis by (simp add: set_insertBy)
  qed
qed

lemma sorted_sortBy:
  assumes total: "\<And>a b. le a b \<or> le b a"
    and trans: "\<And>a b c. le a b \<Longrightarrow> le b c \<Longrightarrow> le a c"
  shows "sorted_wrt le (sortBy (\<lambda>a b. \<not> le a b) xs)"
  unfolding sortBy_def
  by (induction xs) (simp_all add: sorted_insertBy [OF total trans])

lemma codeUnitCompare_flip: "codeUnitCompare b a = - codeUnitCompare a b"
  by (induction a b rule: codeUnitCompare.induct) auto

lemma codeUnitCompare_total: "codeUnitCompare a b \<le> 0 \<or> codeUnitCompare b a \<le> 0"
  using codeUnitCompare_flip [of b a] by linarith

lemma codeUnitCompare_trans:
  "codeUnitCompare a b \<le> 0 \<Longrightarrow> codeUnitCompare b c \<le> 0 \<Longrightarrow> codeUnitCompare a c \<le> 0"
proof (induction a b arbitrary: c rule: codeUnitCompare.induct)
  case 1
  then show ?case by simp
next
  case (2 y ys)
  then show ?case by (cases c) simp_all
next
  case (3 x xs)
  then show ?case by simp
next
  case (4 x xs y ys)
  show ?case
  proof (cases c)
    case Nil
    with "4.prems" show ?thesis by simp
  next
    case (Cons z zs)
    with "4.prems" "4.IH" [of zs] show ?thesis
      by (auto split: if_splits)
  qed
qed

lemma fetchEvents_failure:
  "fetchEvents mapping cal FetchThrows = [] \<and> fetchEvents mapping cal NotOk = []"
  by (simp add: fetchEvents_def)

text \<open>
  Claim C6.  In a read over several calendars, a fetch that throws or is answered with an
  error status contributes no events and the read still answers; the events of the reply
  are the events the calendars returned, all of them and no others, in ascending order of
  their start under the comparator.  (The session holds a provider token, every returned
  event has a start, and \<open>localeCompare\<close> is a total preorder.)
\<close>

theorem read_merges_sorted:
  assumes token: "truthy (providerToken e)"
    and total: "\<And>a b. localeCompare e a b \<le> 0 \<or> localeCompare e b a \<le> 0"
    and trans: "\<And>a b c. localeCompare e a b \<le> 0 \<Longrightarrow> localeCompare e b c \<le> 0
                  \<Longrightarrow> localeCompare e a c \<le> 0"
    and starts: "list_all hasStart (readAll e r)"
    and range: "w = calculateDateRange (env_clock e) r"
  shows "\<exists>rep events.
           readBranch e (JStr r) = Reply rep \<and> rp_events rep = Some events
           \<and> mset events =
               mset (concat (map (\<lambda>cal.
                  case upstream e (cal_id cal) (timeMin w) (timeMax w) of
                    Items (Some items) \<Rightarrow> map (readEvent cal) items
                  | Items None \<Rightarrow> []
                  | NotOk \<Rightarrow> []
                  | FetchThrows \<Rightarrow> [])
                (calendarsToSearch (activeCalendars e))))
           \<and> sorted_wrt (\<lambda>a b. localeCompare e (startOf a) (startOf b) \<le> 0) events"
proof -
  let ?le = "\<lambda>a b. localeCompare e (startOf a) (startOf b) \<le> 0"
  let ?events = "sortBy (\<lambda>a b. \<not> ?le a b) (readAll e r)"
  have after: "(\<lambda>a b. 0 < localeCompare e (startOf a) (startOf b)) = (\<lambda>a b. \<not> ?le a b)"
    by (intro ext) auto
  have all: "readAll e r =
      concat (map (\<lambda>cal.
                  case upstream e (cal_id cal) (timeMin w) (timeMax w) of
                    Items (Some items) \<Rightarrow> map (readEvent cal) items
                  | Items None \<Rightarrow> []
                  | NotOk \<Rightarrow> []
                  | FetchThrows \<Rightarrow> [])
                (calendarsToSearch (activeCalendars e)))"
    unfolding readAll_def Let_def range
    by (rule arg_cong [where f = concat], rule map_cong [OF refl])
       (simp add: fetchEvents_def split: fetchResult.splits option.splits)
  have sorted: "sorted_wrt ?le ?events"
    by (rule sorted_sortBy) (use total trans in blast)+
  have "\<exists>rep. readBranch e (JStr r) = Reply rep \<and> rp_events rep = Some ?events"
    using token starts by (simp add: readBranch_def falsy_def Let_def after)
  then show ?thesis
    using sorted mset_sortBy [of "\<lambda>a b. \<not> ?le a b" "readAll e r"] unfolding all by blast
qed

theorem read_merges_sorted_witness:
  "\<exists>rep events.
     readBranch demoEnv (JStr ''today'') = Reply rep \<and> rp_events rep = Some events
     \<and> mset events = mset (map (readEvent (calendarNamed ''home'')) homeItems)
     \<and> sorted_wrt (\<lambda>a b. codeUnitCompare (startOf a) (startOf b) \<le> 0) events"
proof -
  have token: "truthy (providerToken demoEnv)" by (simp add: demoEnv_def truthy_def)
  have lc: "localeCompare demoEnv = codeUnitCompare" by (simp add: demoEnv_def)
  have up: "upstream demoEnv = demoUpstream" by (simp add: demoEnv_def)
  have cals: "calendarsToSearch (activeCalendars demoEnv) =
      [calendarNamed ''work'', calendarNamed ''home'', calendarNamed ''kids'']"
    by (simp add: demoEnv_def calendarsToSearch_def)
  have ids: "cal_id (calendarNamed n) = n" for n by (simp add: calendarNamed_def)
  have all: "readAll demoEnv ''today'' = map (readEvent (calendarNamed ''home'')) homeItems"
    by (simp add: readAll_def Let_def cals up ids demoUpstream_def fetchEvents_def)
  have starts: "list_all hasStart (readAll demoEnv ''today'')"
    unfolding all
    by (simp add: homeItems_def readEvent_def rawTimed_def rawAllDay_def hasStart_def
        orElse_def truthy_def)
  from read_merges_sorted [of demoEnv "''today''", OF token _ _ starts refl]
  show ?thesis
    unfolding lc using codeUnitCompare_total codeUnitCompare_trans
    by (simp add: cals up ids demoUpstream_def)
qed

text \<open>\<open>includesStr\<close> is the substring test.\<close>

lemma startsWith_append: "startsWith s n \<longleftrightarrow> (\<exists>r. s = n @ r)"
  by (induction s n rule: startsWith.induct) auto

lemma includesStr_iff: "includesStr h n \<longleftrightarrow> (\<exists>p r. h = p @ n @ r)"
proof (induction h)
  case Nil
  then show ?case by auto
next
  case (Cons c cs)
  show ?case
  proof
    assume "includesStr (c # cs) n"
    then consider "startsWith (c # cs) n" | "includesStr cs n" by auto
    then show "\<exists>p r. c # cs = p @ n @ r"
    proof cases
      case 1
      then obtain r where "c # cs = n @ r" unfolding startsWith_append by blast
      then have "c # cs = [] @ n @ r" by simp
      then show ?thesis by blast
    next
      case 2
      then obtain p r where "cs = p @ n @ r" using Cons.IH by blast
      then have "c # cs = (c # p) @ n @ r" by simp
      then show ?thesis by blast
    qed
  next
    assume "\<exists>p r. c # cs = p @ n @ r"
    then obtain p r where pr: "c # cs = p @ n @ r" by blast
    show "includesStr (c # cs) n"
    proof (cases p)
      case Nil
      with pr have "startsWith (c # cs) n" unfolding startsWith_append by auto
      then show ?thesis by simp
    next
      case (Cons a p')
      with pr have "cs = p' @ n @ r" by simp
      then have "includesStr cs n" using Cons.IH by blast
      then show ?thesis by simp
    qed
  qed
qed










text \<open>
  The content \<open>{}\<close> parses, is not of the expected shape, and is passed through as it
  is: the handler checks no shape.  The empty content, which is no JSON text, is answered
  with status 500 by the guard before the parsing.
\<close>

theorem shape_mismatch_counterexample:
  "\<not> expectedShape (JObj [])
   \<and> handleContent demoEnv (Some ''{}'') (Some (JObj [])) = Passed []
   \<and> handleContent demoEnv (Some ''{}'') (Some (JObj [])) \<noteq> Reply rephrase
   \<and> handleContent demoEnv (Some []) None = Failed 500 ''No response from AI''"
  by (simp add: expectedShape_def field_def handleContent_def finalResponse_def spread_def
      setSpeech_def orJ_def truthyJ_def falsy_def truthy_def)

lemma null_completion_fails:
  "truthy content \<Longrightarrow>
     handleContent e content (Some JNull) = Failed 500 ''Failed to process request''"
  by (simp add: handleContent_def falsy_def)

text \<open>
  Claim C7, as the handler has it.  When the content of the completion is a non-empty
  string on which \<open>JSON.parse\<close> throws, the handler does not fail: it answers with the
  reply \<open>rephrase\<close>, action \<open>none\<close>, whose message and speech ask to rephrase and whose
  \<open>appointment\<close> and \<open>readRange\<close> are \<open>null\<close>.
\<close>

theorem parse_failure_rephrase:
  assumes "truthy content"
  shows "handleContent e content None = Reply rephrase
   \<and> rp_message rephrase = Some (JStr ''I had trouble understanding that. Could you rephrase?'')
   \<and> rp_speech rephrase = Some ''I had trouble understanding that. Could you rephrase?''
   \<and> rp_action rephrase = ''none''
   \<and> rp_appointment rephrase = JNull \<and> rp_readRange rephrase = JNull"
  using assms by (simp add: handleContent_def rephrase_def textReply_def falsy_def)

theorem parse_failure_rephrase_witness:
  "handleContent demoEnv (Some ''Sure, I can help with that.'') None = Reply rephrase
   \<and> rp_action rephrase = ''none''
   \<and> rp_appointment rephrase = JNull \<and> rp_readRange rephrase = JNull"
proof -
  have "truthy (Some ''Sure, I can help with that.'')" by (simp add: truthy_def)
  from parse_failure_rephrase [OF this, of demoEnv] show ?thesis by blast
qed

end
